theory Spec2Isabelle
  imports Main "HOL-Library.Word"
begin

unbundle bit_operations_syntax

section \<open>Rockchip INNO USB2 PHY: register fields and charger detection\<close>

text \<open>
  A shallow embedding of the bit-field accessor (\<^verbatim>\<open>property_enable\<close>,
  \<^verbatim>\<open>property_enabled\<close>) and of the charger detection routine
  (\<^verbatim>\<open>rockchip_chg_get_type\<close>) of
  \<^verbatim>\<open>drivers/phy/phy-rockchip-inno-usb2.c\<close>.
\<close>

subsection \<open>Constants and data\<close>

type_synonym u8 = "8 word"
type_synonym u32 = "32 word"

definition U2PHY_BIT_WRITEABLE_SHIFT :: nat where
  "U2PHY_BIT_WRITEABLE_SHIFT = 16"

definition CHG_DCD_MAX_RETRIES :: u8 where
  "CHG_DCD_MAX_RETRIES = 6"

definition CHG_PRI_MAX_RETRIES :: u8 where
  "CHG_PRI_MAX_RETRIES = 2"

text \<open>Delays, in milliseconds.\<close>

definition CHG_DCD_POLL_TIME :: nat where
  "CHG_DCD_POLL_TIME = 100"

definition CHG_PRIMARY_DET_TIME :: nat where
  "CHG_PRIMARY_DET_TIME = 40"

definition CHG_SECONDARY_DET_TIME :: nat where
  "CHG_SECONDARY_DET_TIME = 40"

datatype power_supply_type =
    POWER_SUPPLY_TYPE_UNKNOWN
  | POWER_SUPPLY_TYPE_USB
  | POWER_SUPPLY_TYPE_USB_DCP
  | POWER_SUPPLY_TYPE_USB_CDP
  | POWER_SUPPLY_TYPE_USB_FLOATING

record usb2phy_reg =
  offset :: u32
  bitend :: u32
  bitstart :: u32
  disable :: u32
  enable :: u32

record rockchip_chg_det_reg =
  cp_det :: usb2phy_reg
  dcp_det :: usb2phy_reg
  dp_det :: usb2phy_reg
  idm_sink_en :: usb2phy_reg
  idp_sink_en :: usb2phy_reg
  idp_src_en :: usb2phy_reg
  rdm_pdwn_en :: usb2phy_reg
  vdm_src_en :: usb2phy_reg
  vdp_src_en :: usb2phy_reg
  opmode :: usb2phy_reg

text \<open>
  Of \<^verbatim>\<open>struct rockchip_usb2phy_port_cfg\<close> the accessor and the detection routine
  use two fields only; the other nineteen descriptors are not part of the model.
\<close>

record rockchip_usb2phy_port_cfg =
  phy_sus :: usb2phy_reg
  utmi_bvalid :: usb2phy_reg

text \<open>
  \<^verbatim>\<open>port_cfgs_otg\<close> is \<^verbatim>\<open>port_cfgs[USB2PHY_PORT_OTG]\<close>, the only port the detection
  routine looks at.
\<close>

record rockchip_usb2phy_cfg =
  port_cfgs_otg :: rockchip_usb2phy_port_cfg
  chg_det :: rockchip_chg_det_reg

subsection \<open>The register space and the observable history\<close>

text \<open>
  Everything the driver does to the outside world is a register write, a register read or
  a busy-wait. The history of these events is kept in chronological order. A register bank
  (\<^verbatim>\<open>struct regmap *\<close>) is the hardware's answer to a read: a function of the history so
  far and of the register offset, so that status bits may change with time and with what
  has been written.
\<close>

datatype event =
    RegWrite u32 u32
  | RegRead u32
  | Mdelay nat

type_synonym regmap = "event list \<Rightarrow> u32 \<Rightarrow> u32"

text \<open>
  \<^verbatim>\<open>struct rockchip_usb2phy\<close>, with the fields the modelled functions touch, and the
  history \<open>trace\<close> of the accesses made so far. \<open>usbgrf_base\<close> is \<open>None\<close> for a
  null pointer.
\<close>

record rockchip_usb2phy =
  dcd_retries :: u8
  primary_retries :: u8
  grf_base :: regmap
  usbgrf_base :: "regmap option"
  phy_cfg :: rockchip_usb2phy_cfg
  trace :: "event list"

definition get_reg_base :: "rockchip_usb2phy \<Rightarrow> regmap" where
  "get_reg_base rphy =
     (case usbgrf_base rphy of None \<Rightarrow> grf_base rphy | Some b \<Rightarrow> b)"

text \<open>
  Modelled from the spec: \<^verbatim>\<open>GENMASK(h, l)\<close> is a macro of \<^verbatim>\<open>linux/bitops.h\<close>, which is
  not among the sources; it is the mask of the bit range \<open>l..h\<close>, computed as
  \<^verbatim>\<open>(~0 << l) & (~0 >> (31 - h))\<close> and stored in a \<^verbatim>\<open>u32\<close>.
\<close>

definition GENMASK :: "nat \<Rightarrow> nat \<Rightarrow> u32" where
  "GENMASK h l = push_bit l (- 1) AND drop_bit (31 - h) (- 1)"

text \<open>
  \<^verbatim>\<open>regmap_write\<close>, \<^verbatim>\<open>regmap_read\<close> and \<^verbatim>\<open>mdelay\<close> are the three primitive effects.
  The driver never looks at the status that \<^verbatim>\<open>regmap_write\<close> and \<^verbatim>\<open>regmap_read\<close>
  return, so the model has none.
\<close>

definition regmap_write :: "regmap \<Rightarrow> u32 \<Rightarrow> u32 \<Rightarrow> rockchip_usb2phy \<Rightarrow> rockchip_usb2phy" where
  "regmap_write base off val rphy = rphy\<lparr>trace := trace rphy @ [RegWrite off val]\<rparr>"

definition regmap_read :: "regmap \<Rightarrow> u32 \<Rightarrow> rockchip_usb2phy \<Rightarrow> u32 \<times> rockchip_usb2phy" where
  "regmap_read base off rphy =
     (base (trace rphy) off, rphy\<lparr>trace := trace rphy @ [RegRead off]\<rparr>)"

definition mdelay :: "nat \<Rightarrow> rockchip_usb2phy \<Rightarrow> rockchip_usb2phy" where
  "mdelay ms rphy = rphy\<lparr>trace := trace rphy @ [Mdelay ms]\<rparr>"

subsection \<open>The property accessor\<close>

text \<open>
  The word that \<^verbatim>\<open>property_enable\<close> hands to \<^verbatim>\<open>regmap_write\<close>. The shifts are those
  of a \<^verbatim>\<open>u32\<close>: bits shifted beyond bit 31 are lost. (A shift by 32 or more, which C
  leaves undefined, gives 0 here; no table of the driver has one.)
\<close>

definition property_val :: "usb2phy_reg \<Rightarrow> bool \<Rightarrow> u32" where
  "property_val reg en =
     (let tmp = (if en then enable reg else disable reg);
          mask = GENMASK (unat (bitend reg)) (unat (bitstart reg))
      in push_bit (unat (bitstart reg)) tmp OR push_bit U2PHY_BIT_WRITEABLE_SHIFT mask)"

definition property_enable :: "regmap \<Rightarrow> usb2phy_reg \<Rightarrow> bool \<Rightarrow> rockchip_usb2phy \<Rightarrow> rockchip_usb2phy" where
  "property_enable base reg en rphy = regmap_write base (offset reg) (property_val reg en) rphy"

text \<open>The test that \<^verbatim>\<open>property_enabled\<close> makes on the word it has read.\<close>

definition field_enabled :: "usb2phy_reg \<Rightarrow> u32 \<Rightarrow> bool" where
  "field_enabled reg orig =
     (let mask = GENMASK (unat (bitend reg)) (unat (bitstart reg));
          tmp = drop_bit (unat (bitstart reg)) (orig AND mask)
      in tmp = enable reg)"

definition property_enabled :: "regmap \<Rightarrow> usb2phy_reg \<Rightarrow> rockchip_usb2phy \<Rightarrow> bool \<times> rockchip_usb2phy" where
  "property_enabled base reg rphy =
     (let (orig, rphy') = regmap_read base (offset reg) rphy
      in (field_enabled reg orig, rphy'))"

text \<open>
  Modelled from the spec: the register banks themselves are hardware. A bank that honours
  the write-enable convention takes the upper half-word of a written word as a mask over
  the lower half-word: a data bit is stored where its mask bit is set, every other bit of
  the register keeps its value. \<open>grf_regs init tr\<close> are the register contents after the
  writes of the history \<open>tr\<close>, starting from \<open>init\<close>.
\<close>

definition grf_store :: "u32 \<Rightarrow> u32 \<Rightarrow> u32" where
  "grf_store old val =
     (let m = drop_bit U2PHY_BIT_WRITEABLE_SHIFT val in (old AND NOT m) OR (val AND m))"

fun grf_regs :: "(u32 \<Rightarrow> u32) \<Rightarrow> event list \<Rightarrow> u32 \<Rightarrow> u32" where
  "grf_regs init [] = init"
| "grf_regs init (RegWrite off val # tr) =
     grf_regs (init(off := grf_store (init off) val)) tr"
| "grf_regs init (RegRead off # tr) = grf_regs init tr"
| "grf_regs init (Mdelay ms # tr) = grf_regs init tr"

subsection \<open>Charger detection\<close>

definition rockchip_chg_enable_dcd :: "bool \<Rightarrow> rockchip_usb2phy \<Rightarrow> rockchip_usb2phy" where
  "rockchip_chg_enable_dcd en rphy =
     (let base = get_reg_base rphy;
          rphy1 = property_enable base (rdm_pdwn_en (chg_det (phy_cfg rphy))) en rphy
      in property_enable base (idp_src_en (chg_det (phy_cfg rphy1))) en rphy1)"

definition rockchip_chg_enable_primary_det :: "bool \<Rightarrow> rockchip_usb2phy \<Rightarrow> rockchip_usb2phy" where
  "rockchip_chg_enable_primary_det en rphy =
     (let base = get_reg_base rphy;
          rphy1 = property_enable base (vdp_src_en (chg_det (phy_cfg rphy))) en rphy
      in property_enable base (idm_sink_en (chg_det (phy_cfg rphy1))) en rphy1)"

definition rockchip_chg_enable_secondary_det :: "bool \<Rightarrow> rockchip_usb2phy \<Rightarrow> rockchip_usb2phy" where
  "rockchip_chg_enable_secondary_det en rphy =
     (let base = get_reg_base rphy;
          rphy1 = property_enable base (vdm_src_en (chg_det (phy_cfg rphy))) en rphy
      in property_enable base (idp_sink_en (chg_det (phy_cfg rphy1))) en rphy1)"

text \<open>
  The loop of \<^verbatim>\<open>rockchip_chg_primary_det_retry\<close>. The condition
  \<^verbatim>\<open>rphy->primary_retries--\<close> tests the counter and then decrements it, also when the test
  fails: the \<^verbatim>\<open>u8\<close> counter then wraps from 0 to 255. The first argument is the local
  \<^verbatim>\<open>vout\<close>.
\<close>

function primary_det_loop :: "regmap \<Rightarrow> bool \<Rightarrow> rockchip_usb2phy \<Rightarrow> bool \<times> rockchip_usb2phy" where
  "primary_det_loop base vout rphy =
     (let c = primary_retries rphy;
          rphy1 = rphy\<lparr>primary_retries := c - 1\<rparr>
      in if c = 0 then (vout, rphy1)
         else
           let rphy2 = rockchip_chg_enable_primary_det True rphy1;
               rphy3 = mdelay CHG_PRIMARY_DET_TIME rphy2;
               r = property_enabled base (cp_det (chg_det (phy_cfg rphy3))) rphy3
           in if fst r then r else primary_det_loop base (fst r) (snd r))"
  by pat_completeness auto

termination primary_det_loop
proof (relation "measure (\<lambda>(base, vout, rphy). unat (primary_retries rphy))")
  show "wf (measure (\<lambda>(base, vout, rphy). unat (primary_retries rphy)))"
    by simp
next
  fix base :: regmap and vout :: bool and rphy :: rockchip_usb2phy and c rphy1 rphy2 rphy3 r
  assume a: "c = primary_retries rphy" "rphy1 = rphy\<lparr>primary_retries := c - 1\<rparr>" "c \<noteq> 0"
    "rphy2 = rockchip_chg_enable_primary_det True rphy1"
    "rphy3 = mdelay CHG_PRIMARY_DET_TIME rphy2"
    "r = property_enabled base (cp_det (chg_det (phy_cfg rphy3))) rphy3"
  have "primary_retries (snd r) = primary_retries rphy - 1"
    using a by (simp add: property_enable_def property_enabled_def regmap_write_def
        regmap_read_def mdelay_def rockchip_chg_enable_primary_det_def Let_def)
  moreover have "unat (primary_retries rphy - 1) < unat (primary_retries rphy)"
    using a(1,3) by (simp add: unat_minus_one unat_gt_0)
  ultimately show "((base, fst r, snd r), base, vout, rphy)
      \<in> measure (\<lambda>(base, vout, rphy). unat (primary_retries rphy))"
    by (simp add: case_prod_unfold)
qed

declare primary_det_loop.simps [simp del]

definition rockchip_chg_primary_det_retry :: "rockchip_usb2phy \<Rightarrow> bool \<times> rockchip_usb2phy" where
  "rockchip_chg_primary_det_retry rphy =
     (let base = get_reg_base rphy;
          r = primary_det_loop base False rphy
      in (fst r, rockchip_chg_enable_primary_det False (snd r)))"

text \<open>
  The data contact detection loop of \<^verbatim>\<open>rockchip_chg_get_type\<close>
  (\<^verbatim>\<open>while (rphy->dcd_retries--)\<close>), with the same test-then-decrement of a \<^verbatim>\<open>u8\<close>.
\<close>

function chg_dcd_loop :: "regmap \<Rightarrow> rockchip_usb2phy \<Rightarrow> rockchip_usb2phy" where
  "chg_dcd_loop base rphy =
     (let c = dcd_retries rphy;
          rphy1 = rphy\<lparr>dcd_retries := c - 1\<rparr>
      in if c = 0 then rphy1
         else
           let rphy2 = mdelay CHG_DCD_POLL_TIME rphy1;
               r = property_enabled base (dp_det (chg_det (phy_cfg rphy2))) rphy2
           in if fst r \<or> dcd_retries (snd r) = 0
              then rockchip_chg_enable_primary_det True (rockchip_chg_enable_dcd False (snd r))
              else chg_dcd_loop base (snd r))"
  by pat_completeness auto

termination chg_dcd_loop
proof (relation "measure (\<lambda>(base, rphy). unat (dcd_retries rphy))")
  show "wf (measure (\<lambda>(base, rphy). unat (dcd_retries rphy)))"
    by simp
next
  fix base :: regmap and rphy :: rockchip_usb2phy and c rphy1 rphy2 r
  assume a: "c = dcd_retries rphy" "rphy1 = rphy\<lparr>dcd_retries := c - 1\<rparr>" "c \<noteq> 0"
    "rphy2 = mdelay CHG_DCD_POLL_TIME rphy1"
    "r = property_enabled base (dp_det (chg_det (phy_cfg rphy2))) rphy2"
  have "dcd_retries (snd r) = dcd_retries rphy - 1"
    using a by (simp add: property_enabled_def regmap_read_def mdelay_def Let_def)
  moreover have "unat (dcd_retries rphy - 1) < unat (dcd_retries rphy)"
    using a(1,3) by (simp add: unat_minus_one unat_gt_0)
  ultimately show "((base, snd r), base, rphy) \<in> measure (\<lambda>(base, rphy). unat (dcd_retries rphy))"
    by simp
qed

declare chg_dcd_loop.simps [simp del]

text \<open>The label \<^verbatim>\<open>out\<close>: resume the PHY, put the controller in normal mode, return.\<close>

definition chg_out :: "regmap \<Rightarrow> power_supply_type \<Rightarrow> rockchip_usb2phy \<Rightarrow> power_supply_type \<times> rockchip_usb2phy" where
  "chg_out base chg_type rphy =
     (let rphy1 = property_enable base (opmode (chg_det (phy_cfg rphy))) True rphy;
          rphy2 = property_enable base (phy_sus (port_cfgs_otg (phy_cfg rphy1))) False rphy1
      in (chg_type, rphy2))"

text \<open>The secondary detection, which every path with \<^verbatim>\<open>vout\<close> set falls into.\<close>

definition chg_secondary_det :: "regmap \<Rightarrow> rockchip_usb2phy \<Rightarrow> power_supply_type \<times> rockchip_usb2phy" where
  "chg_secondary_det base rphy =
     (let rphy1 = mdelay CHG_SECONDARY_DET_TIME rphy;
          r = property_enabled base (dcp_det (chg_det (phy_cfg rphy1))) rphy1;
          vout = fst r;
          rphy2 = rockchip_chg_enable_secondary_det False (snd r)
      in chg_out base (if vout then POWER_SUPPLY_TYPE_USB_DCP else POWER_SUPPLY_TYPE_USB_CDP) rphy2)"

text \<open>
  The part of \<^verbatim>\<open>rockchip_chg_get_type\<close> from the suspend of the PHY up to the end of
  the data contact detection loop.
\<close>

definition chg_dcd_stage :: "regmap \<Rightarrow> rockchip_usb2phy \<Rightarrow> rockchip_usb2phy" where
  "chg_dcd_stage base rphy =
     (let rphy1 = property_enable base (phy_sus (port_cfgs_otg (phy_cfg rphy))) True rphy;
          rphy2 = property_enable base (opmode (chg_det (phy_cfg rphy1))) False rphy1;
          rphy3 = rphy2\<lparr>dcd_retries := CHG_DCD_MAX_RETRIES, primary_retries := CHG_PRI_MAX_RETRIES\<rparr>;
          rphy4 = rockchip_chg_enable_dcd True rphy3
      in chg_dcd_loop base rphy4)"

text \<open>
  The part of \<^verbatim>\<open>rockchip_chg_get_type\<close> after the VBUS check. \<open>rk3036\<close> says whether
  \<^verbatim>\<open>CONFIG_ROCKCHIP_RK3036\<close> is defined.
\<close>

definition chg_detect :: "bool \<Rightarrow> regmap \<Rightarrow> rockchip_usb2phy \<Rightarrow> power_supply_type \<times> rockchip_usb2phy" where
  "chg_detect rk3036 base rphy =
     (if rk3036 then chg_out base POWER_SUPPLY_TYPE_USB rphy
      else
        let rphy1 = chg_dcd_stage base rphy;
            rphy2 = mdelay CHG_PRIMARY_DET_TIME rphy1;
            r = property_enabled base (cp_det (chg_det (phy_cfg rphy2))) rphy2;
            vout = fst r;
            rphy3 = rockchip_chg_enable_primary_det False (snd r)
        in if vout then chg_secondary_det base (rockchip_chg_enable_secondary_det True rphy3)
           else if dcd_retries rphy3 = 0 then chg_out base POWER_SUPPLY_TYPE_USB_FLOATING rphy3
           else
             let r' = rockchip_chg_primary_det_retry rphy3
             in if fst r' then chg_secondary_det base (rockchip_chg_enable_secondary_det True (snd r'))
                else chg_out base POWER_SUPPLY_TYPE_USB (snd r'))"

text \<open>
  The check of the VBUS status that opens \<^verbatim>\<open>rockchip_chg_get_type\<close>: whether VBUS
  is there, and the PHY after the check. \<open>vbus_det_gpio\<close> is \<open>None\<close> when
  \<^verbatim>\<open>dm_gpio_is_valid\<close> fails (always so without \<^verbatim>\<open>CONFIG_ROCKCHIP_RK3506\<close>) and
  \<open>Some v\<close> when the GPIO is valid and \<^verbatim>\<open>dm_gpio_get_value\<close> gives \<open>v\<close>.
\<close>

definition chg_vbus_check :: "int option \<Rightarrow> regmap \<Rightarrow> rockchip_usb2phy \<Rightarrow> bool \<times> rockchip_usb2phy" where
  "chg_vbus_check vbus_det_gpio base rphy =
     (case vbus_det_gpio of
        Some v \<Rightarrow> if v \<noteq> 0 then (True, rphy) else (False, rphy)
      | None \<Rightarrow>
          let r = property_enabled base (utmi_bvalid (port_cfgs_otg (phy_cfg rphy))) rphy
          in if \<not> fst r then (False, snd r) else (True, snd r))"

text \<open>
  The device lookup that opens \<^verbatim>\<open>rockchip_chg_get_type\<close>. A call of
  \<^verbatim>\<open>uclass_get_device_by_name\<close> gives a status and leaves something in \<^verbatim>\<open>udev\<close>;
  \<open>lookup_priv\<close> is what \<^verbatim>\<open>dev_get_priv(udev)\<close> reaches after the call: \<open>Some rphy\<close> when
  \<^verbatim>\<open>udev\<close> is a device with the private data \<open>rphy\<close>, \<open>None\<close> when it is not (a null or
  stale pointer). The function returns before the detection only when the first lookup
  gives \<^verbatim>\<open>-ENODEV\<close> and the second one fails; after any other status of the first lookup,
  an error too, it goes on to \<^verbatim>\<open>dev_get_priv(udev)\<close>. Going on with a pointer that is not
  a device has no defined behaviour in C: that is the exit \<open>Invalid_device\<close>. The value of
  the macro \<^verbatim>\<open>ENODEV\<close>, which is not among the sources, is the parameter \<open>enodev\<close>.
\<close>

datatype chg_exit =
    Returned int
  | Invalid_device

record dev_lookup =
  lookup_ret :: int
  lookup_priv :: "rockchip_usb2phy option"

definition dev_get_priv :: "rockchip_usb2phy option \<Rightarrow> chg_exit + rockchip_usb2phy" where
  "dev_get_priv udev = (case udev of None \<Rightarrow> Inl Invalid_device | Some rphy \<Rightarrow> Inr rphy)"

definition chg_lookup :: "int \<Rightarrow> dev_lookup \<Rightarrow> dev_lookup \<Rightarrow> chg_exit + rockchip_usb2phy" where
  "chg_lookup enodev first second =
     (if lookup_ret first = - enodev
      then if lookup_ret second \<noteq> 0 then Inl (Returned (lookup_ret second))
           else dev_get_priv (lookup_priv second)
      else dev_get_priv (lookup_priv first))"

text \<open>
  \<^verbatim>\<open>rockchip_chg_get_type\<close> from \<^verbatim>\<open>dev_get_priv(udev)\<close> on. The argument \<open>dev\<close> is the
  value of \<open>chg_lookup\<close>: \<open>Inl\<close> when the call is over before the detection, \<open>Inr rphy\<close>
  when it goes on with the private data \<open>rphy\<close>. The call as a whole is
  \<open>rockchip_chg_get_type rk3036 vbus_det_gpio (chg_lookup enodev first second)\<close>.
\<close>

definition rockchip_chg_get_type ::
    "bool \<Rightarrow> int option \<Rightarrow> chg_exit + rockchip_usb2phy \<Rightarrow>
     chg_exit + power_supply_type \<times> rockchip_usb2phy" where
  "rockchip_chg_get_type rk3036 vbus_det_gpio dev =
     (case dev of
        Inl ex \<Rightarrow> Inl ex
      | Inr rphy \<Rightarrow>
          let base = get_reg_base rphy;
              r = chg_vbus_check vbus_det_gpio base rphy
          in if \<not> fst r then Inr (POWER_SUPPLY_TYPE_UNKNOWN, snd r)
             else Inr (chg_detect rk3036 base (snd r)))"

subsection \<open>Observations on a history\<close>

text \<open>What \<^verbatim>\<open>property_enabled\<close> answers for a field when the history so far is \<open>tr\<close>.\<close>

definition reads_enabled :: "regmap \<Rightarrow> event list \<Rightarrow> usb2phy_reg \<Rightarrow> bool" where
  "reads_enabled base tr reg = field_enabled reg (base tr (offset reg))"

text \<open>The time spent in \<^verbatim>\<open>mdelay\<close>, in milliseconds, and the register writes.\<close>

fun total_delay :: "event list \<Rightarrow> nat" where
  "total_delay [] = 0"
| "total_delay (Mdelay ms # tr) = ms + total_delay tr"
| "total_delay (RegWrite off val # tr) = total_delay tr"
| "total_delay (RegRead off # tr) = total_delay tr"

fun is_write :: "event \<Rightarrow> bool" where
  "is_write (RegWrite off val) = True"
| "is_write (RegRead off) = False"
| "is_write (Mdelay ms) = False"

text \<open>The events of the stages, as the accessor produces them.\<close>

definition wr :: "usb2phy_reg \<Rightarrow> bool \<Rightarrow> event" where
  "wr reg en = RegWrite (offset reg) (property_val reg en)"

definition rd :: "usb2phy_reg \<Rightarrow> event" where
  "rd reg = RegRead (offset reg)"

definition dcd_polls :: "rockchip_usb2phy_cfg \<Rightarrow> nat \<Rightarrow> event list" where
  "dcd_polls cfg k = concat (replicate k [Mdelay CHG_DCD_POLL_TIME, rd (dp_det (chg_det cfg))])"

definition ev_suspend :: "rockchip_usb2phy_cfg \<Rightarrow> event list" where
  "ev_suspend cfg = [wr (phy_sus (port_cfgs_otg cfg)) True, wr (opmode (chg_det cfg)) False]"

definition ev_cleanup :: "rockchip_usb2phy_cfg \<Rightarrow> event list" where
  "ev_cleanup cfg = [wr (opmode (chg_det cfg)) True, wr (phy_sus (port_cfgs_otg cfg)) False]"

definition ev_dcd :: "rockchip_usb2phy_cfg \<Rightarrow> bool \<Rightarrow> event list" where
  "ev_dcd cfg en = [wr (rdm_pdwn_en (chg_det cfg)) en, wr (idp_src_en (chg_det cfg)) en]"

definition ev_primary :: "rockchip_usb2phy_cfg \<Rightarrow> bool \<Rightarrow> event list" where
  "ev_primary cfg en = [wr (vdp_src_en (chg_det cfg)) en, wr (idm_sink_en (chg_det cfg)) en]"

definition ev_secondary :: "rockchip_usb2phy_cfg \<Rightarrow> bool \<Rightarrow> event list" where
  "ev_secondary cfg en = [wr (vdm_src_en (chg_det cfg)) en, wr (idp_sink_en (chg_det cfg)) en]"

text \<open>
  One retry of the primary detection, as \<^verbatim>\<open>rockchip_chg_primary_det_retry\<close> makes it; the
  whole data contact detection stage with \<open>k\<close> polls; the first primary detection after
  it; the secondary detection.
\<close>

definition ev_attempt :: "rockchip_usb2phy_cfg \<Rightarrow> event list" where
  "ev_attempt cfg =
     ev_primary cfg True @ [Mdelay CHG_PRIMARY_DET_TIME, rd (cp_det (chg_det cfg))]"

definition tr_dcd :: "rockchip_usb2phy_cfg \<Rightarrow> nat \<Rightarrow> event list" where
  "tr_dcd cfg k =
     ev_suspend cfg @ ev_dcd cfg True @ dcd_polls cfg k @ ev_dcd cfg False @ ev_primary cfg True"

definition ev_first :: "rockchip_usb2phy_cfg \<Rightarrow> event list" where
  "ev_first cfg =
     [Mdelay CHG_PRIMARY_DET_TIME, rd (cp_det (chg_det cfg))] @ ev_primary cfg False"

definition ev_second :: "rockchip_usb2phy_cfg \<Rightarrow> event list" where
  "ev_second cfg =
     ev_secondary cfg True @ [Mdelay CHG_SECONDARY_DET_TIME, rd (dcp_det (chg_det cfg))]
       @ ev_secondary cfg False"

text \<open>
  What poll number \<open>j\<close> (from 0) of the data contact detection reads in \<^verbatim>\<open>dp_det\<close>,
  for a PHY that enters the stage in the state \<open>rphy\<close>.
\<close>

definition dcd_seen :: "regmap \<Rightarrow> rockchip_usb2phy \<Rightarrow> nat \<Rightarrow> bool" where
  "dcd_seen base rphy j =
     reads_enabled base
       (trace rphy @ ev_suspend (phy_cfg rphy) @ ev_dcd (phy_cfg rphy) True
          @ dcd_polls (phy_cfg rphy) j @ [Mdelay CHG_DCD_POLL_TIME])
       (dp_det (chg_det (phy_cfg rphy)))"

text \<open>The history and the classification at the end of a call.\<close>

definition final_trace :: "chg_exit + power_supply_type \<times> rockchip_usb2phy \<Rightarrow> event list" where
  "final_trace res = (case res of Inl ex \<Rightarrow> [] | Inr (chg_type, rphy) \<Rightarrow> trace rphy)"

definition chg_type_of :: "chg_exit + power_supply_type \<times> rockchip_usb2phy \<Rightarrow> power_supply_type option" where
  "chg_type_of res = (case res of Inl ex \<Rightarrow> None | Inr (chg_type, rphy) \<Rightarrow> Some chg_type)"

text \<open>
  A field that \<^verbatim>\<open>property_enable\<close> can address under the write-enable convention: its
  bit range lies in the lower half-word. An encoding fits when it has no bit beyond the
  width of the range.
\<close>

definition field_width :: "usb2phy_reg \<Rightarrow> nat" where
  "field_width reg = unat (bitend reg) + 1 - unat (bitstart reg)"

definition writable_field :: "usb2phy_reg \<Rightarrow> bool" where
  "writable_field reg \<longleftrightarrow>
     unat (bitstart reg) \<le> unat (bitend reg) \<and> unat (bitend reg) < U2PHY_BIT_WRITEABLE_SHIFT"

definition fits :: "usb2phy_reg \<Rightarrow> u32 \<Rightarrow> bool" where
  "fits reg v \<longleftrightarrow> take_bit (field_width reg) v = v"

text \<open>
  Writing the field \<open>sus\<close> disabled leaves the field \<open>op\<close> at its enable encoding: the
  two fields are in different registers, or every bit they share gets from the disable
  encoding of \<open>sus\<close> the value that the enable encoding of \<open>op\<close> gives it (so when they
  share no bit).
\<close>

definition clear_spares :: "usb2phy_reg \<Rightarrow> usb2phy_reg \<Rightarrow> bool" where
  "clear_spares sus op \<longleftrightarrow>
     offset op \<noteq> offset sus \<or>
     (writable_field sus \<and> fits sus (disable sus) \<and>
      (\<forall>p\<in>{unat (bitstart op)..unat (bitend op)}.
          unat (bitstart sus) \<le> p \<and> p \<le> unat (bitend sus) \<longrightarrow>
          bit (disable sus) (p - unat (bitstart sus)) = bit (enable op) (p - unat (bitstart op))))"

subsection \<open>Configurations of the driver's tables\<close>

definition mk_reg :: "u32 \<Rightarrow> u32 \<Rightarrow> u32 \<Rightarrow> u32 \<Rightarrow> u32 \<Rightarrow> usb2phy_reg" where
  "mk_reg off e s d en = \<lparr>offset = off, bitend = e, bitstart = s, disable = d, enable = en\<rparr>"

text \<open>\<^verbatim>\<open>rk3328_phy_cfgs[0]\<close>.\<close>

definition rk3328_phy_cfg :: rockchip_usb2phy_cfg where
  "rk3328_phy_cfg =
     \<lparr>port_cfgs_otg =
        \<lparr>phy_sus = mk_reg 0x0100 8 0 0 0x1d1,
         utmi_bvalid = mk_reg 0x0120 9 9 0 1\<rparr>,
      chg_det =
        \<lparr>cp_det = mk_reg 0x0120 24 24 0 1,
         dcp_det = mk_reg 0x0120 23 23 0 1,
         dp_det = mk_reg 0x0120 25 25 0 1,
         idm_sink_en = mk_reg 0x0108 8 8 0 1,
         idp_sink_en = mk_reg 0x0108 7 7 0 1,
         idp_src_en = mk_reg 0x0108 9 9 0 1,
         rdm_pdwn_en = mk_reg 0x0108 10 10 0 1,
         vdm_src_en = mk_reg 0x0108 12 12 0 1,
         vdp_src_en = mk_reg 0x0108 11 11 0 1,
         opmode = mk_reg 0x0100 3 0 5 1\<rparr>\<rparr>"

text \<open>\<^verbatim>\<open>rk3036_phy_cfgs[0]\<close>, which has no \<^verbatim>\<open>chg_det\<close> initialiser: all its fields are zero.\<close>

definition rk3036_phy_cfg :: rockchip_usb2phy_cfg where
  "rk3036_phy_cfg =
     \<lparr>port_cfgs_otg =
        \<lparr>phy_sus = mk_reg 0x017c 8 0 0 0x1d1,
         utmi_bvalid = mk_reg 0x014c 5 5 0 1\<rparr>,
      chg_det =
        \<lparr>cp_det = mk_reg 0 0 0 0 0,
         dcp_det = mk_reg 0 0 0 0 0,
         dp_det = mk_reg 0 0 0 0 0,
         idm_sink_en = mk_reg 0 0 0 0 0,
         idp_sink_en = mk_reg 0 0 0 0 0,
         idp_src_en = mk_reg 0 0 0 0 0,
         rdm_pdwn_en = mk_reg 0 0 0 0 0,
         vdm_src_en = mk_reg 0 0 0 0 0,
         vdp_src_en = mk_reg 0 0 0 0 0,
         opmode = mk_reg 0 0 0 0 0\<rparr>\<rparr>"

text \<open>\<^verbatim>\<open>rk3588_phy_cfgs[0]\<close>.\<close>

definition rk3588_phy_cfg :: rockchip_usb2phy_cfg where
  "rk3588_phy_cfg =
     \<lparr>port_cfgs_otg =
        \<lparr>phy_sus = mk_reg 0x000c 11 11 0 1,
         utmi_bvalid = mk_reg 0x00c0 6 6 0 1\<rparr>,
      chg_det =
        \<lparr>cp_det = mk_reg 0x00c0 0 0 0 1,
         dcp_det = mk_reg 0x00c0 0 0 0 1,
         dp_det = mk_reg 0x00c0 1 1 1 0,
         idm_sink_en = mk_reg 0x0008 5 5 1 0,
         idp_sink_en = mk_reg 0x0008 5 5 0 1,
         idp_src_en = mk_reg 0x0008 14 14 0 1,
         rdm_pdwn_en = mk_reg 0x0008 14 14 0 1,
         vdm_src_en = mk_reg 0x0008 7 6 0 3,
         vdp_src_en = mk_reg 0x0008 7 6 0 3,
         opmode = mk_reg 0x0008 2 2 1 0\<rparr>\<rparr>"

text \<open>
  A simulated bank whose answers depend on the time elapsed only: register \<open>off\<close> reads
  \<open>f ms off\<close> once \<open>ms\<close> milliseconds of delay have gone by. In a \<open>status_bank\<close>
  one status register is alive and every other register reads 0. \<open>mk_phy\<close> is a PHY on
  one bank, with a configuration and an empty history.
\<close>

definition timed_bank :: "(nat \<Rightarrow> u32 \<Rightarrow> u32) \<Rightarrow> regmap" where
  "timed_bank f tr off = f (total_delay tr) off"

definition status_bank :: "u32 \<Rightarrow> (nat \<Rightarrow> u32) \<Rightarrow> regmap" where
  "status_bank off f = timed_bank (\<lambda>ms off'. if off' = off then f ms else 0)"

definition mk_phy :: "regmap \<Rightarrow> rockchip_usb2phy_cfg \<Rightarrow> rockchip_usb2phy" where
  "mk_phy base cfg =
     \<lparr>dcd_retries = 0, primary_retries = 0, grf_base = base, usbgrf_base = None,
      phy_cfg = cfg, trace = []\<rparr>"

text \<open>
  Simulated status registers for the RK3328 layout (register \<open>0x0120\<close>: \<^verbatim>\<open>utmi_bvalid\<close>
  is bit 9, \<^verbatim>\<open>dcp_det\<close> bit 23, \<^verbatim>\<open>cp_det\<close> bit 24, \<^verbatim>\<open>dp_det\<close> bit 25). VBUS is
  valid in all but the last; data contact shows after \<open>t\<close> milliseconds, or never;
  \<open>bank_charger\<close> shows no data contact and a charging port.
\<close>

definition bank_contact_from :: "nat \<Rightarrow> regmap" where
  "bank_contact_from t = status_bank 0x0120 (\<lambda>ms. if t \<le> ms then 0x02000200 else 0x200)"

definition bank_no_contact :: regmap where
  "bank_no_contact = status_bank 0x0120 (\<lambda>ms. 0x200)"

definition bank_charger :: regmap where
  "bank_charger = status_bank 0x0120 (\<lambda>ms. 0x01000200)"

definition bank_no_vbus :: regmap where
  "bank_no_vbus = status_bank 0x0120 (\<lambda>ms. 0)"

text \<open>The RK3036 layout with VBUS valid (\<^verbatim>\<open>utmi_bvalid\<close> is bit 5 of \<open>0x014c\<close>).\<close>

definition bank_rk3036_vbus :: regmap where
  "bank_rk3036_vbus = status_bank 0x014c (\<lambda>ms. 0x20)"



section \<open>Properties\<close>

subsection \<open>Bit fields\<close>

lemma bit_GENMASK: "h \<le> 31 \<Longrightarrow> bit (GENMASK h l) n \<longleftrightarrow> l \<le> n \<and> n \<le> h"
  by (auto simp: GENMASK_def bit_simps)

lemma field_enabled_extract:
  assumes "unat (bitstart reg) \<le> unat (bitend reg)" "unat (bitend reg) \<le> 31"
  shows "field_enabled reg orig \<longleftrightarrow>
     take_bit (unat (bitend reg) + 1 - unat (bitstart reg)) (drop_bit (unat (bitstart reg)) orig) = enable reg"
proof -
  have "drop_bit (unat (bitstart reg)) (orig AND GENMASK (unat (bitend reg)) (unat (bitstart reg)))
      = take_bit (unat (bitend reg) + 1 - unat (bitstart reg)) (drop_bit (unat (bitstart reg)) orig)"
    using assms by (intro bit_eqI) (auto simp: bit_simps bit_GENMASK)
  then show ?thesis by (simp add: field_enabled_def Let_def)
qed

lemma store_field:
  fixes v :: u32
  assumes "s \<le> e" "e < 16" "take_bit (e + 1 - s) v = v"
  shows "take_bit (e + 1 - s) (drop_bit s (grf_store old (push_bit s v OR push_bit 16 (GENMASK e s)))) = v"
proof (rule bit_eqI)
  fix n
  have fit: "bit v k \<Longrightarrow> k < e + 1 - s" for k
    using assms(3) by (metis bit_take_bit_iff)
  show "bit (take_bit (e + 1 - s) (drop_bit s (grf_store old (push_bit s v OR push_bit 16 (GENMASK e s))))) n = bit v n"
    using assms(1,2) fit[of n]
    by (auto simp: grf_store_def U2PHY_BIT_WRITEABLE_SHIFT_def Let_def bit_simps bit_GENMASK dest: fit)
qed

subsection \<open>Effects of the stages\<close>


lemma property_enable_eq:
  "property_enable base reg en rphy = rphy\<lparr>trace := trace rphy @ [wr reg en]\<rparr>"
  by (simp add: property_enable_def regmap_write_def wr_def)

lemma property_enabled_eq:
  "property_enabled base reg rphy =
     (reads_enabled base (trace rphy) reg, rphy\<lparr>trace := trace rphy @ [rd reg]\<rparr>)"
  by (simp add: property_enabled_def regmap_read_def reads_enabled_def rd_def)

lemma enable_dcd_eq:
  "rockchip_chg_enable_dcd en rphy = rphy\<lparr>trace := trace rphy @ ev_dcd (phy_cfg rphy) en\<rparr>"
  by (simp add: rockchip_chg_enable_dcd_def property_enable_eq ev_dcd_def)

lemma enable_primary_det_eq:
  "rockchip_chg_enable_primary_det en rphy =
     rphy\<lparr>trace := trace rphy @ ev_primary (phy_cfg rphy) en\<rparr>"
  by (simp add: rockchip_chg_enable_primary_det_def property_enable_eq ev_primary_def)

lemma enable_secondary_det_eq:
  "rockchip_chg_enable_secondary_det en rphy =
     rphy\<lparr>trace := trace rphy @ ev_secondary (phy_cfg rphy) en\<rparr>"
  by (simp add: rockchip_chg_enable_secondary_det_def property_enable_eq ev_secondary_def)

lemma chg_out_eq:
  "chg_out base chg_type rphy = (chg_type, rphy\<lparr>trace := trace rphy @ ev_cleanup (phy_cfg rphy)\<rparr>)"
  by (simp add: chg_out_def property_enable_eq ev_cleanup_def)

lemma chg_secondary_det_eq:
  "chg_secondary_det base rphy =
     ((if reads_enabled base (trace rphy @ [Mdelay CHG_SECONDARY_DET_TIME]) (dcp_det (chg_det (phy_cfg rphy)))
       then POWER_SUPPLY_TYPE_USB_DCP else POWER_SUPPLY_TYPE_USB_CDP),
      rphy\<lparr>trace := trace rphy @ [Mdelay CHG_SECONDARY_DET_TIME, rd (dcp_det (chg_det (phy_cfg rphy)))]
                @ ev_secondary (phy_cfg rphy) False @ ev_cleanup (phy_cfg rphy)\<rparr>)"
  by (simp add: chg_secondary_det_def property_enabled_eq enable_secondary_det_eq chg_out_eq mdelay_def)

lemma chg_dcd_loop_step:
  assumes "dcd_retries rphy \<noteq> 0"
  shows "chg_dcd_loop base rphy =
     (if reads_enabled base (trace rphy @ [Mdelay CHG_DCD_POLL_TIME]) (dp_det (chg_det (phy_cfg rphy)))
         \<or> dcd_retries rphy = 1
      then rphy\<lparr>dcd_retries := dcd_retries rphy - 1,
                trace := trace rphy @ [Mdelay CHG_DCD_POLL_TIME, rd (dp_det (chg_det (phy_cfg rphy)))]
                   @ ev_dcd (phy_cfg rphy) False @ ev_primary (phy_cfg rphy) True\<rparr>
      else chg_dcd_loop base
             (rphy\<lparr>dcd_retries := dcd_retries rphy - 1,
                   trace := trace rphy @ [Mdelay CHG_DCD_POLL_TIME, rd (dp_det (chg_det (phy_cfg rphy)))]\<rparr>))"
  using assms
  by (subst chg_dcd_loop.simps)
     (simp add: Let_def property_enabled_eq mdelay_def enable_dcd_eq enable_primary_det_eq)

lemma dcd_polls_simps:
  "dcd_polls cfg 0 = []"
  "dcd_polls cfg (Suc k) = Mdelay CHG_DCD_POLL_TIME # rd (dp_det (chg_det cfg)) # dcd_polls cfg k"
  by (simp_all add: dcd_polls_def)

lemma chg_dcd_loop_run:
  assumes "1 \<le> k" "k \<le> unat (dcd_retries rphy)"
    "\<forall>j<k - 1. \<not> reads_enabled base
        (trace rphy @ dcd_polls (phy_cfg rphy) j @ [Mdelay CHG_DCD_POLL_TIME])
        (dp_det (chg_det (phy_cfg rphy)))"
    "reads_enabled base
        (trace rphy @ dcd_polls (phy_cfg rphy) (k - 1) @ [Mdelay CHG_DCD_POLL_TIME])
        (dp_det (chg_det (phy_cfg rphy))) \<or> k = unat (dcd_retries rphy)"
  shows "chg_dcd_loop base rphy =
     rphy\<lparr>dcd_retries := dcd_retries rphy - of_nat k,
          trace := trace rphy @ dcd_polls (phy_cfg rphy) k
             @ ev_dcd (phy_cfg rphy) False @ ev_primary (phy_cfg rphy) True\<rparr>"
  using assms
proof (induction k arbitrary: rphy)
  case 0
  then show ?case by simp
next
  case (Suc k)
  let ?c = "dcd_retries rphy"
  let ?cfg = "phy_cfg rphy"
  have nz: "?c \<noteq> 0"
    using Suc.prems(2) unat_gt_0 [of ?c] by simp
  have one: "?c = 1 \<longleftrightarrow> unat ?c = 1"
    using word_eq_iff_unsigned [where ?'a = nat, of ?c 1] by simp
  show ?case
  proof (cases k)
    case 0
    with Suc.prems(4) have "reads_enabled base (trace rphy @ [Mdelay CHG_DCD_POLL_TIME])
        (dp_det (chg_det ?cfg)) \<or> ?c = 1"
      by (auto simp: dcd_polls_simps one)
    with 0 show ?thesis
      by (simp add: chg_dcd_loop_step [OF nz] dcd_polls_simps)
  next
    case (Suc k')
    let ?r = "rphy\<lparr>dcd_retries := ?c - 1, trace := trace rphy @ [Mdelay CHG_DCD_POLL_TIME, rd (dp_det (chg_det ?cfg))]\<rparr>"
    have miss: "\<not> reads_enabled base (trace rphy @ [Mdelay CHG_DCD_POLL_TIME]) (dp_det (chg_det ?cfg))"
      using Suc.prems(3) Suc by (auto simp: dcd_polls_simps dest: spec [of _ 0])
    have ne1: "?c \<noteq> 1"
      using Suc.prems(2) Suc by (simp add: one)
    have u: "unat (?c - 1) = unat ?c - 1"
      using nz by (simp add: unat_minus_one)
    have step: "chg_dcd_loop base rphy = chg_dcd_loop base ?r"
      using miss ne1 by (simp add: chg_dcd_loop_step [OF nz])
    have p1: "1 \<le> k" using Suc by simp
    have p2: "k \<le> unat (dcd_retries ?r)"
      using Suc.prems(2) u by simp
    have p3: "\<forall>j<k - 1. \<not> reads_enabled base
        (trace ?r @ dcd_polls (phy_cfg ?r) j @ [Mdelay CHG_DCD_POLL_TIME])
        (dp_det (chg_det (phy_cfg ?r)))"
    proof (intro allI impI)
      fix j assume "j < k - 1"
      then have "Suc j < Suc k - 1" by simp
      with Suc.prems(3) have "\<not> reads_enabled base
        (trace rphy @ dcd_polls ?cfg (Suc j) @ [Mdelay CHG_DCD_POLL_TIME]) (dp_det (chg_det ?cfg))"
        by blast
      then show "\<not> reads_enabled base
        (trace ?r @ dcd_polls (phy_cfg ?r) j @ [Mdelay CHG_DCD_POLL_TIME])
        (dp_det (chg_det (phy_cfg ?r)))"
        by (simp add: dcd_polls_simps)
    qed
    have p4: "reads_enabled base
        (trace ?r @ dcd_polls (phy_cfg ?r) (k - 1) @ [Mdelay CHG_DCD_POLL_TIME])
        (dp_det (chg_det (phy_cfg ?r))) \<or> k = unat (dcd_retries ?r)"
      using Suc.prems(4) Suc u Suc.prems(2) by (auto simp: dcd_polls_simps)
    have "chg_dcd_loop base ?r =
       ?r\<lparr>dcd_retries := dcd_retries ?r - of_nat k,
          trace := trace ?r @ dcd_polls (phy_cfg ?r) k
             @ ev_dcd (phy_cfg ?r) False @ ev_primary (phy_cfg ?r) True\<rparr>"
      by (rule Suc.IH [OF p1 p2 p3 p4])
    then show ?thesis
      by (simp add: step dcd_polls_simps)
  qed
qed

lemma first_hit_ex:
  assumes "1 \<le> (n::nat)"
  shows "\<exists>k. 1 \<le> k \<and> k \<le> n \<and> (\<forall>j<k - 1. \<not> P j) \<and> (P (k - 1) \<or> k = n)"
proof (cases "\<exists>j<n. P j")
  case True
  then obtain j where j: "j < n" "P j" by blast
  define m where "m = (LEAST i. P i)"
  have m1: "P m" unfolding m_def using j(2) by (rule LeastI [of P j])
  have m2: "m \<le> j" unfolding m_def using j(2) by (rule Least_le [of P j])
  have m3: "\<not> P i" if "i < m" for i
    using that not_less_Least [of i P] unfolding m_def by blast
  have "1 \<le> Suc m \<and> Suc m \<le> n \<and> (\<forall>j<Suc m - 1. \<not> P j) \<and> (P (Suc m - 1) \<or> Suc m = n)"
    using m1 m2 m3 j(1) by simp
  then show ?thesis by blast
next
  case False
  then have "1 \<le> n \<and> n \<le> n \<and> (\<forall>j<n - 1. \<not> P j) \<and> (P (n - 1) \<or> n = n)"
    using assms by simp
  then show ?thesis by blast
qed

lemma chg_dcd_stage_run:
  assumes "1 \<le> k" "k \<le> 6"
    "\<forall>j<k - 1. \<not> reads_enabled base
        (trace rphy @ ev_suspend (phy_cfg rphy) @ ev_dcd (phy_cfg rphy) True
           @ dcd_polls (phy_cfg rphy) j @ [Mdelay CHG_DCD_POLL_TIME])
        (dp_det (chg_det (phy_cfg rphy)))"
    "reads_enabled base
        (trace rphy @ ev_suspend (phy_cfg rphy) @ ev_dcd (phy_cfg rphy) True
           @ dcd_polls (phy_cfg rphy) (k - 1) @ [Mdelay CHG_DCD_POLL_TIME])
        (dp_det (chg_det (phy_cfg rphy))) \<or> k = 6"
  shows "chg_dcd_stage base rphy =
     rphy\<lparr>dcd_retries := 6 - of_nat k, primary_retries := 2,
          trace := trace rphy @ ev_suspend (phy_cfg rphy) @ ev_dcd (phy_cfg rphy) True
             @ dcd_polls (phy_cfg rphy) k
             @ ev_dcd (phy_cfg rphy) False @ ev_primary (phy_cfg rphy) True\<rparr>"
proof -
  let ?r = "rphy\<lparr>dcd_retries := 6, primary_retries := 2,
      trace := trace rphy @ ev_suspend (phy_cfg rphy) @ ev_dcd (phy_cfg rphy) True\<rparr>"
  have st: "chg_dcd_stage base rphy = chg_dcd_loop base ?r"
    by (simp add: chg_dcd_stage_def property_enable_eq enable_dcd_eq ev_suspend_def
        CHG_DCD_MAX_RETRIES_def CHG_PRI_MAX_RETRIES_def)
  have "chg_dcd_loop base ?r =
     ?r\<lparr>dcd_retries := dcd_retries ?r - of_nat k,
          trace := trace ?r @ dcd_polls (phy_cfg ?r) k
             @ ev_dcd (phy_cfg ?r) False @ ev_primary (phy_cfg ?r) True\<rparr>"
    by (rule chg_dcd_loop_run) (use assms in simp_all)
  then show ?thesis
    by (simp add: st)
qed

lemma chg_dcd_stage_ex:
  "\<exists>k. 1 \<le> k \<and> k \<le> 6 \<and>
     (\<forall>j<k - 1. \<not> reads_enabled base
        (trace rphy @ ev_suspend (phy_cfg rphy) @ ev_dcd (phy_cfg rphy) True
           @ dcd_polls (phy_cfg rphy) j @ [Mdelay CHG_DCD_POLL_TIME])
        (dp_det (chg_det (phy_cfg rphy)))) \<and>
     (reads_enabled base
        (trace rphy @ ev_suspend (phy_cfg rphy) @ ev_dcd (phy_cfg rphy) True
           @ dcd_polls (phy_cfg rphy) (k - 1) @ [Mdelay CHG_DCD_POLL_TIME])
        (dp_det (chg_det (phy_cfg rphy))) \<or> k = 6) \<and>
     chg_dcd_stage base rphy =
       rphy\<lparr>dcd_retries := 6 - of_nat k, primary_retries := 2,
          trace := trace rphy @ ev_suspend (phy_cfg rphy) @ ev_dcd (phy_cfg rphy) True
             @ dcd_polls (phy_cfg rphy) k
             @ ev_dcd (phy_cfg rphy) False @ ev_primary (phy_cfg rphy) True\<rparr>"
proof -
  let ?P = "\<lambda>j. reads_enabled base
        (trace rphy @ ev_suspend (phy_cfg rphy) @ ev_dcd (phy_cfg rphy) True
           @ dcd_polls (phy_cfg rphy) j @ [Mdelay CHG_DCD_POLL_TIME])
        (dp_det (chg_det (phy_cfg rphy)))"
  obtain k where k: "1 \<le> k" "k \<le> 6" "\<forall>j<k - 1. \<not> ?P j" "?P (k - 1) \<or> k = 6"
    using first_hit_ex [of 6 ?P] by auto
  from chg_dcd_stage_run [OF k] k show ?thesis
    by blast
qed



lemma chg_dcd_stage_inv:
  "phy_cfg (chg_dcd_stage base rphy) = phy_cfg rphy"
  "grf_base (chg_dcd_stage base rphy) = grf_base rphy"
  "usbgrf_base (chg_dcd_stage base rphy) = usbgrf_base rphy"
  "primary_retries (chg_dcd_stage base rphy) = 2"
proof -
  obtain k where eq: "chg_dcd_stage base rphy =
       rphy\<lparr>dcd_retries := 6 - of_nat k, primary_retries := 2,
          trace := trace rphy @ ev_suspend (phy_cfg rphy) @ ev_dcd (phy_cfg rphy) True
             @ dcd_polls (phy_cfg rphy) k
             @ ev_dcd (phy_cfg rphy) False @ ev_primary (phy_cfg rphy) True\<rparr>"
    using chg_dcd_stage_ex [of base rphy] by blast
  show "phy_cfg (chg_dcd_stage base rphy) = phy_cfg rphy"
    "grf_base (chg_dcd_stage base rphy) = grf_base rphy"
    "usbgrf_base (chg_dcd_stage base rphy) = usbgrf_base rphy"
    "primary_retries (chg_dcd_stage base rphy) = 2"
    by (simp_all add: eq)
qed

lemma primary_det_loop_zero:
  "primary_retries rphy = 0 \<Longrightarrow>
     primary_det_loop base vout rphy = (vout, rphy\<lparr>primary_retries := 255\<rparr>)"
  by (subst primary_det_loop.simps) simp

lemma primary_det_loop_step:
  assumes "primary_retries rphy \<noteq> 0"
  shows "primary_det_loop base vout rphy =
     (if reads_enabled base
           (trace rphy @ ev_primary (phy_cfg rphy) True @ [Mdelay CHG_PRIMARY_DET_TIME])
           (cp_det (chg_det (phy_cfg rphy)))
      then (True, rphy\<lparr>primary_retries := primary_retries rphy - 1,
                 trace := trace rphy @ ev_primary (phy_cfg rphy) True
                    @ [Mdelay CHG_PRIMARY_DET_TIME, rd (cp_det (chg_det (phy_cfg rphy)))]\<rparr>)
      else primary_det_loop base False
             (rphy\<lparr>primary_retries := primary_retries rphy - 1,
                 trace := trace rphy @ ev_primary (phy_cfg rphy) True
                    @ [Mdelay CHG_PRIMARY_DET_TIME, rd (cp_det (chg_det (phy_cfg rphy)))]\<rparr>))"
  using assms
  by (subst primary_det_loop.simps)
     (simp add: Let_def property_enabled_eq mdelay_def enable_primary_det_eq)


lemma primary_det_retry_two:
  assumes "primary_retries rphy = 2"
  shows "rockchip_chg_primary_det_retry rphy =
     (if reads_enabled (get_reg_base rphy)
           (trace rphy @ ev_primary (phy_cfg rphy) True @ [Mdelay CHG_PRIMARY_DET_TIME])
           (cp_det (chg_det (phy_cfg rphy)))
      then (True, rphy\<lparr>primary_retries := 1,
                 trace := trace rphy @ ev_attempt (phy_cfg rphy) @ ev_primary (phy_cfg rphy) False\<rparr>)
      else if reads_enabled (get_reg_base rphy)
           (trace rphy @ ev_attempt (phy_cfg rphy) @ ev_primary (phy_cfg rphy) True
              @ [Mdelay CHG_PRIMARY_DET_TIME])
           (cp_det (chg_det (phy_cfg rphy)))
      then (True, rphy\<lparr>primary_retries := 0,
                 trace := trace rphy @ ev_attempt (phy_cfg rphy) @ ev_attempt (phy_cfg rphy)
                    @ ev_primary (phy_cfg rphy) False\<rparr>)
      else (False, rphy\<lparr>primary_retries := 255,
                 trace := trace rphy @ ev_attempt (phy_cfg rphy) @ ev_attempt (phy_cfg rphy)
                    @ ev_primary (phy_cfg rphy) False\<rparr>))"
  using assms
  by (simp add: rockchip_chg_primary_det_retry_def Let_def primary_det_loop_step
      primary_det_loop_zero enable_primary_det_eq ev_attempt_def)

lemma get_reg_base_upd [simp]:
  "get_reg_base (rphy\<lparr>trace := t\<rparr>) = get_reg_base rphy"
  "get_reg_base (rphy\<lparr>dcd_retries := d\<rparr>) = get_reg_base rphy"
  "get_reg_base (rphy\<lparr>primary_retries := p\<rparr>) = get_reg_base rphy"
  by (simp_all add: get_reg_base_def split: option.splits)

lemma get_reg_base_dcd_stage: "get_reg_base (chg_dcd_stage base rphy) = get_reg_base rphy"
  by (simp add: get_reg_base_def chg_dcd_stage_inv split: option.splits)

lemma chg_detect_eq:
  fixes rphy :: rockchip_usb2phy
  defines "base \<equiv> get_reg_base rphy"
  defines "cfg \<equiv> phy_cfg rphy"
  defines "s \<equiv> chg_dcd_stage (get_reg_base rphy) rphy"
  defines "T1 \<equiv> trace (chg_dcd_stage (get_reg_base rphy) rphy) @ ev_first (phy_cfg rphy)"
  shows "chg_detect False base rphy =
    (if reads_enabled base (trace s @ [Mdelay CHG_PRIMARY_DET_TIME]) (cp_det (chg_det cfg))
     then chg_secondary_det base (s\<lparr>trace := T1 @ ev_secondary cfg True\<rparr>)
     else if dcd_retries s = 0
     then (POWER_SUPPLY_TYPE_USB_FLOATING, s\<lparr>trace := T1 @ ev_cleanup cfg\<rparr>)
     else if reads_enabled base (T1 @ ev_primary cfg True @ [Mdelay CHG_PRIMARY_DET_TIME])
               (cp_det (chg_det cfg))
     then chg_secondary_det base
            (s\<lparr>primary_retries := 1,
               trace := T1 @ ev_attempt cfg @ ev_primary cfg False @ ev_secondary cfg True\<rparr>)
     else if reads_enabled base
               (T1 @ ev_attempt cfg @ ev_primary cfg True @ [Mdelay CHG_PRIMARY_DET_TIME])
               (cp_det (chg_det cfg))
     then chg_secondary_det base
            (s\<lparr>primary_retries := 0,
               trace := T1 @ ev_attempt cfg @ ev_attempt cfg @ ev_primary cfg False
                  @ ev_secondary cfg True\<rparr>)
     else (POWER_SUPPLY_TYPE_USB,
           s\<lparr>primary_retries := 255,
             trace := T1 @ ev_attempt cfg @ ev_attempt cfg @ ev_primary cfg False
                @ ev_cleanup cfg\<rparr>))"
  unfolding base_def cfg_def s_def T1_def
  by (simp add: chg_detect_def Let_def property_enabled_eq mdelay_def enable_primary_det_eq
      enable_secondary_det_eq chg_out_eq chg_dcd_stage_inv primary_det_retry_two
      get_reg_base_dcd_stage ev_first_def)

lemma chg_vbus_check_eq:
  "chg_vbus_check gpio base rphy =
     (case gpio of
        Some v \<Rightarrow> (v \<noteq> 0, rphy)
      | None \<Rightarrow>
          (reads_enabled base (trace rphy) (utmi_bvalid (port_cfgs_otg (phy_cfg rphy))),
           rphy\<lparr>trace := trace rphy @ [rd (utmi_bvalid (port_cfgs_otg (phy_cfg rphy)))]\<rparr>))"
  by (simp add: chg_vbus_check_def property_enabled_eq Let_def split: option.split)

lemma total_delay_append [simp]:
  "total_delay (xs @ ys) = total_delay xs + total_delay ys"
  by (induction xs rule: total_delay.induct) simp_all

lemma chg_vbus_check_inv:
  assumes "chg_vbus_check gpio base rphy = (ok, rphy0)"
  shows "phy_cfg rphy0 = phy_cfg rphy" "get_reg_base rphy0 = get_reg_base rphy"
    "dcd_retries rphy0 = dcd_retries rphy" "primary_retries rphy0 = primary_retries rphy"
    "total_delay (trace rphy0) = total_delay (trace rphy)"
    "filter is_write (trace rphy0) = filter is_write (trace rphy)"
  using assms by (auto simp: chg_vbus_check_eq rd_def split: option.splits)

lemma get_type_eq:
  assumes "chg_vbus_check gpio (get_reg_base rphy) rphy = (ok, rphy0)"
  shows "rockchip_chg_get_type rk3036 gpio (Inr rphy) =
     (if ok then Inr (chg_detect rk3036 (get_reg_base rphy0) rphy0)
      else Inr (POWER_SUPPLY_TYPE_UNKNOWN, rphy0))"
  using assms chg_vbus_check_inv(2) [OF assms]
  by (simp add: rockchip_chg_get_type_def Let_def)

lemma chg_dcd_stage_k:
  assumes "1 \<le> k" "k \<le> 6" "\<forall>j<k - 1. \<not> dcd_seen base rphy j"
    "dcd_seen base rphy (k - 1) \<or> k = 6"
  shows "chg_dcd_stage base rphy =
     rphy\<lparr>dcd_retries := 6 - of_nat k, primary_retries := 2,
          trace := trace rphy @ tr_dcd (phy_cfg rphy) k\<rparr>"
  using chg_dcd_stage_run [of k base rphy] assms
  by (simp add: dcd_seen_def tr_dcd_def)

lemma chg_dcd_stage_six:
  assumes "\<forall>j<5. \<not> dcd_seen base rphy j"
  shows "chg_dcd_stage base rphy =
     rphy\<lparr>dcd_retries := 0, primary_retries := 2,
          trace := trace rphy @ tr_dcd (phy_cfg rphy) 6\<rparr>"
  using chg_dcd_stage_k [of 6 base rphy] assms by simp

subsection \<open>The device lookup\<close>

text \<open>
  The call returns before the detection only when the first lookup gives \<^verbatim>\<open>-ENODEV\<close>
  and the second fails; in every other case it goes on with what \<^verbatim>\<open>udev\<close> holds.
\<close>

lemma chg_lookup_returns:
  "lookup_ret first = - enodev \<Longrightarrow> lookup_ret second \<noteq> 0 \<Longrightarrow>
     rockchip_chg_get_type rk3036 gpio (chg_lookup enodev first second) =
       Inl (Returned (lookup_ret second))"
  by (simp add: chg_lookup_def rockchip_chg_get_type_def)

lemma chg_lookup_second:
  "lookup_ret first = - enodev \<Longrightarrow> lookup_ret second = 0 \<Longrightarrow>
     chg_lookup enodev first second = dev_get_priv (lookup_priv second)"
  by (simp add: chg_lookup_def)

lemma chg_lookup_first:
  "lookup_ret first \<noteq> - enodev \<Longrightarrow>
     chg_lookup enodev first second = dev_get_priv (lookup_priv first)"
  by (simp add: chg_lookup_def)

subsection \<open>The data contact detection stage\<close>

text \<open>
  Claim C2. The data contact detection stage makes \<open>k\<close> polls for some \<open>k\<close> from 1 to 6,
  each a delay of 100 ms followed by a read of \<^verbatim>\<open>dp_det\<close> (\<open>dcd_polls\<close>). No poll before
  the last one read \<^verbatim>\<open>dp_det\<close> asserted, and the last one did, unless it is the sixth:
  the loop stops at the first asserted read or when the budget is used up. The counter
  \<^verbatim>\<open>dcd_retries\<close> ends at \<open>6 - k\<close>: every poll takes one retry, the last one too. The
  stage ends with the writes that disable \<^verbatim>\<open>rdm_pdwn_en\<close> and \<^verbatim>\<open>idp_src_en\<close> and
  enable \<^verbatim>\<open>vdp_src_en\<close> and \<^verbatim>\<open>idm_sink_en\<close> (the end of \<open>tr_dcd\<close>).
\<close>

theorem dcd_stage_polls:
  "\<exists>k. 1 \<le> k \<and> k \<le> 6 \<and>
     (\<forall>j<k - 1. \<not> dcd_seen base rphy j) \<and>
     (dcd_seen base rphy (k - 1) \<or> k = 6) \<and>
     chg_dcd_stage base rphy =
       rphy\<lparr>dcd_retries := 6 - of_nat k, primary_retries := 2,
            trace := trace rphy @ tr_dcd (phy_cfg rphy) k\<rparr>"
  using chg_dcd_stage_ex [of base rphy]
  by (simp add: dcd_seen_def tr_dcd_def)

text \<open>
  On the RK3328 layout with data contact after 300 ms, the third poll is the first to see
  it: three polls, and three retries left.
\<close>

theorem dcd_stage_polls_witness:
  "chg_dcd_stage (bank_contact_from 300) (mk_phy (bank_contact_from 300) rk3328_phy_cfg) =
     (mk_phy (bank_contact_from 300) rk3328_phy_cfg)
       \<lparr>dcd_retries := 3, primary_retries := 2, trace := tr_dcd rk3328_phy_cfg 3\<rparr>"
proof -
  let ?b = "bank_contact_from 300"
  let ?r = "mk_phy ?b rk3328_phy_cfg"
  have s0: "\<not> dcd_seen ?b ?r 0" by code_simp
  have s1: "\<not> dcd_seen ?b ?r 1" by code_simp
  have s2: "dcd_seen ?b ?r 2" by code_simp
  obtain k where k: "1 \<le> k" "k \<le> 6" "\<forall>j<k - 1. \<not> dcd_seen ?b ?r j"
    "dcd_seen ?b ?r (k - 1) \<or> k = 6"
    and eq: "chg_dcd_stage ?b ?r =
       ?r\<lparr>dcd_retries := 6 - of_nat k, primary_retries := 2,
            trace := trace ?r @ tr_dcd (phy_cfg ?r) k\<rparr>"
    using dcd_stage_polls [of ?b ?r] by blast
  have "\<not> 2 < k - 1" using k(3) s2 by blast
  then have le: "k \<le> 3" by simp
  then have "dcd_seen ?b ?r (k - 1)" using k(4) by simp
  then have "k - 1 \<noteq> 0" "k - 1 \<noteq> 1" using s0 s1 by auto
  with le k(1) have "k = 3" by simp
  with eq show ?thesis by (simp add: mk_phy_def)
qed

subsection \<open>The VBUS check\<close>

text \<open>
  Claim C7. When the VBUS GPIO is valid and reads 0, or when there is no valid GPIO and
  \<^verbatim>\<open>utmi_bvalid\<close> does not read asserted, the call returns
  \<^verbatim>\<open>POWER_SUPPLY_TYPE_UNKNOWN\<close> and leaves the PHY as it was but for the history, which
  grows by the read of \<^verbatim>\<open>utmi_bvalid\<close> in the second case and by nothing in the first:
  no register is written, there is no delay, and both retry counters keep their values.
\<close>

theorem vbus_absent_unknown:
  assumes "gpio = Some 0 \<or>
     (gpio = None \<and>
      \<not> reads_enabled (get_reg_base rphy) (trace rphy) (utmi_bvalid (port_cfgs_otg (phy_cfg rphy))))"
  shows "rockchip_chg_get_type rk3036 gpio (Inr rphy) =
     Inr (POWER_SUPPLY_TYPE_UNKNOWN,
          rphy\<lparr>trace := trace rphy @
            (case gpio of None \<Rightarrow> [rd (utmi_bvalid (port_cfgs_otg (phy_cfg rphy)))]
             | Some v \<Rightarrow> [])\<rparr>)"
  using assms
  by (auto simp: rockchip_chg_get_type_def chg_vbus_check_eq Let_def)

theorem vbus_absent_unknown_witness:
  "\<not> reads_enabled (get_reg_base (mk_phy bank_no_vbus rk3328_phy_cfg))
       (trace (mk_phy bank_no_vbus rk3328_phy_cfg))
       (utmi_bvalid (port_cfgs_otg (phy_cfg (mk_phy bank_no_vbus rk3328_phy_cfg)))) \<and>
   rockchip_chg_get_type False None (Inr (mk_phy bank_no_vbus rk3328_phy_cfg)) =
     Inr (POWER_SUPPLY_TYPE_UNKNOWN,
          (mk_phy bank_no_vbus rk3328_phy_cfg)\<lparr>trace := [RegRead 0x0120]\<rparr>)"
proof -
  let ?r = "mk_phy bank_no_vbus rk3328_phy_cfg"
  have h: "\<not> reads_enabled (get_reg_base ?r) (trace ?r) (utmi_bvalid (port_cfgs_otg (phy_cfg ?r)))"
    by code_simp
  then have "None = Some (0::int) \<or>
     ((None :: int option) = None \<and>
      \<not> reads_enabled (get_reg_base ?r) (trace ?r) (utmi_bvalid (port_cfgs_otg (phy_cfg ?r))))"
    by simp
  from vbus_absent_unknown [OF this, of False] h show ?thesis
    by (simp add: rd_def mk_phy_def rk3328_phy_cfg_def mk_reg_def)
qed

lemma get_type_detect:
  fixes rphy rphy0 :: rockchip_usb2phy
  assumes vbus: "chg_vbus_check gpio (get_reg_base rphy) rphy = (True, rphy0)"
  defines "base \<equiv> get_reg_base rphy"
  defines "cfg \<equiv> phy_cfg rphy"
  defines "s \<equiv> chg_dcd_stage (get_reg_base rphy) rphy0"
  defines "T1 \<equiv> trace (chg_dcd_stage (get_reg_base rphy) rphy0) @ ev_first (phy_cfg rphy)"
  shows "rockchip_chg_get_type False gpio (Inr rphy) = Inr
    (if reads_enabled base (trace s @ [Mdelay CHG_PRIMARY_DET_TIME]) (cp_det (chg_det cfg))
     then chg_secondary_det base (s\<lparr>trace := T1 @ ev_secondary cfg True\<rparr>)
     else if dcd_retries s = 0
     then (POWER_SUPPLY_TYPE_USB_FLOATING, s\<lparr>trace := T1 @ ev_cleanup cfg\<rparr>)
     else if reads_enabled base (T1 @ ev_primary cfg True @ [Mdelay CHG_PRIMARY_DET_TIME])
               (cp_det (chg_det cfg))
     then chg_secondary_det base
            (s\<lparr>primary_retries := 1,
               trace := T1 @ ev_attempt cfg @ ev_primary cfg False @ ev_secondary cfg True\<rparr>)
     else if reads_enabled base
               (T1 @ ev_attempt cfg @ ev_primary cfg True @ [Mdelay CHG_PRIMARY_DET_TIME])
               (cp_det (chg_det cfg))
     then chg_secondary_det base
            (s\<lparr>primary_retries := 0,
               trace := T1 @ ev_attempt cfg @ ev_attempt cfg @ ev_primary cfg False
                  @ ev_secondary cfg True\<rparr>)
     else (POWER_SUPPLY_TYPE_USB,
           s\<lparr>primary_retries := 255,
             trace := T1 @ ev_attempt cfg @ ev_attempt cfg @ ev_primary cfg False
                @ ev_cleanup cfg\<rparr>))"
proof -
  note e = chg_vbus_check_inv(1,2) [OF vbus]
  show ?thesis
    unfolding base_def cfg_def s_def T1_def get_type_eq [OF vbus] if_True
    using chg_detect_eq [of rphy0] unfolding e by (rule arg_cong)
qed

lemma floating_general:
  assumes vbus: "chg_vbus_check gpio (get_reg_base rphy) rphy = (True, rphy0)"
    and zero: "dcd_retries (chg_dcd_stage (get_reg_base rphy) rphy0) = 0"
    and cp: "\<not> reads_enabled (get_reg_base rphy)
         (trace (chg_dcd_stage (get_reg_base rphy) rphy0) @ [Mdelay CHG_PRIMARY_DET_TIME])
         (cp_det (chg_det (phy_cfg rphy)))"
  shows "rockchip_chg_get_type False gpio (Inr rphy) =
     Inr (POWER_SUPPLY_TYPE_USB_FLOATING,
          (chg_dcd_stage (get_reg_base rphy) rphy0)
            \<lparr>trace := trace (chg_dcd_stage (get_reg_base rphy) rphy0)
               @ ev_first (phy_cfg rphy) @ ev_cleanup (phy_cfg rphy)\<rparr>)"
  using zero cp by (simp add: get_type_detect [OF vbus])

lemma floating_six:
  assumes vbus: "chg_vbus_check gpio (get_reg_base rphy) rphy = (True, rphy0)"
    and dp: "\<forall>j<5. \<not> dcd_seen (get_reg_base rphy) rphy0 j"
    and cp: "\<not> reads_enabled (get_reg_base rphy)
         (trace rphy0 @ tr_dcd (phy_cfg rphy) 6 @ [Mdelay CHG_PRIMARY_DET_TIME])
         (cp_det (chg_det (phy_cfg rphy)))"
  shows "rockchip_chg_get_type False gpio (Inr rphy) =
     Inr (POWER_SUPPLY_TYPE_USB_FLOATING,
          rphy0\<lparr>dcd_retries := 0, primary_retries := 2,
            trace := trace rphy0 @ tr_dcd (phy_cfg rphy) 6
               @ ev_first (phy_cfg rphy) @ ev_cleanup (phy_cfg rphy)\<rparr>)"
proof -
  have st: "chg_dcd_stage (get_reg_base rphy) rphy0 =
     rphy0\<lparr>dcd_retries := 0, primary_retries := 2,
          trace := trace rphy0 @ tr_dcd (phy_cfg rphy) 6\<rparr>"
    using chg_dcd_stage_six [OF dp] chg_vbus_check_inv(1) [OF vbus] by simp
  show ?thesis
    using floating_general [OF vbus] cp by (simp add: st)
qed



lemma all_less_5: "(\<forall>j<5. P j) \<longleftrightarrow> P 0 \<and> P 1 \<and> P 2 \<and> P 3 \<and> P (4::nat)"
proof -
  have e: "j < 5 \<longleftrightarrow> j = 0 \<or> j = 1 \<or> j = 2 \<or> j = 3 \<or> j = 4" for j :: nat
    by arith
  show ?thesis unfolding e by blast
qed

lemma all_less_6: "(\<forall>j<6. P j) \<longleftrightarrow> P 0 \<and> P 1 \<and> P 2 \<and> P 3 \<and> P 4 \<and> P (5::nat)"
proof -
  have e: "j < 6 \<longleftrightarrow> j = 0 \<or> j = 1 \<or> j = 2 \<or> j = 3 \<or> j = 4 \<or> j = 5" for j :: nat
    by arith
  show ?thesis unfolding e by blast
qed

lemma vbus_rk3328:
  assumes "reads_enabled b [] (mk_reg 0x0120 9 9 0 1)"
  shows "chg_vbus_check None (get_reg_base (mk_phy b rk3328_phy_cfg)) (mk_phy b rk3328_phy_cfg) =
     (True, (mk_phy b rk3328_phy_cfg)\<lparr>trace := [RegRead 0x0120]\<rparr>)"
  using assms
  by (simp add: chg_vbus_check_eq rd_def mk_phy_def rk3328_phy_cfg_def get_reg_base_def mk_reg_def)


subsection \<open>The floating charger\<close>

text \<open>
  Claim C3. Let VBUS be there and the model not be the RK3036. If the data contact detection
  stage ends with \<^verbatim>\<open>dcd_retries\<close> at zero and the read of \<^verbatim>\<open>cp_det\<close> that follows it,
  40 ms later, is not asserted, the call returns \<^verbatim>\<open>POWER_SUPPLY_TYPE_USB_FLOATING\<close>; after
  the stage the history has the first primary detection (\<open>ev_first\<close>) and the cleanup
  (\<open>ev_cleanup\<close>) only: no retry, no secondary detection. In particular this is so when
  none of the six polls reads \<^verbatim>\<open>dp_det\<close> asserted and \<^verbatim>\<open>cp_det\<close> is not asserted.
\<close>

theorem floating_on_dcd_timeout:
  assumes "chg_vbus_check gpio (get_reg_base rphy) rphy = (True, rphy0)"
  shows "(dcd_retries (chg_dcd_stage (get_reg_base rphy) rphy0) = 0 \<and>
      \<not> reads_enabled (get_reg_base rphy)
         (trace (chg_dcd_stage (get_reg_base rphy) rphy0) @ [Mdelay CHG_PRIMARY_DET_TIME])
         (cp_det (chg_det (phy_cfg rphy))) \<longrightarrow>
      rockchip_chg_get_type False gpio (Inr rphy) =
        Inr (POWER_SUPPLY_TYPE_USB_FLOATING,
          (chg_dcd_stage (get_reg_base rphy) rphy0)
            \<lparr>trace := trace (chg_dcd_stage (get_reg_base rphy) rphy0)
               @ ev_first (phy_cfg rphy) @ ev_cleanup (phy_cfg rphy)\<rparr>)) \<and>
     ((\<forall>j<6. \<not> dcd_seen (get_reg_base rphy) rphy0 j) \<and>
      \<not> reads_enabled (get_reg_base rphy)
         (trace rphy0 @ tr_dcd (phy_cfg rphy) 6 @ [Mdelay CHG_PRIMARY_DET_TIME])
         (cp_det (chg_det (phy_cfg rphy))) \<longrightarrow>
      rockchip_chg_get_type False gpio (Inr rphy) =
        Inr (POWER_SUPPLY_TYPE_USB_FLOATING,
          rphy0\<lparr>dcd_retries := 0, primary_retries := 2,
            trace := trace rphy0 @ tr_dcd (phy_cfg rphy) 6
               @ ev_first (phy_cfg rphy) @ ev_cleanup (phy_cfg rphy)\<rparr>))"
proof (intro conjI impI)
  assume "dcd_retries (chg_dcd_stage (get_reg_base rphy) rphy0) = 0 \<and>
      \<not> reads_enabled (get_reg_base rphy)
         (trace (chg_dcd_stage (get_reg_base rphy) rphy0) @ [Mdelay CHG_PRIMARY_DET_TIME])
         (cp_det (chg_det (phy_cfg rphy)))"
  then show "rockchip_chg_get_type False gpio (Inr rphy) =
        Inr (POWER_SUPPLY_TYPE_USB_FLOATING,
          (chg_dcd_stage (get_reg_base rphy) rphy0)
            \<lparr>trace := trace (chg_dcd_stage (get_reg_base rphy) rphy0)
               @ ev_first (phy_cfg rphy) @ ev_cleanup (phy_cfg rphy)\<rparr>)"
    using floating_general [OF assms] by blast
next
  assume a: "(\<forall>j<6. \<not> dcd_seen (get_reg_base rphy) rphy0 j) \<and>
      \<not> reads_enabled (get_reg_base rphy)
         (trace rphy0 @ tr_dcd (phy_cfg rphy) 6 @ [Mdelay CHG_PRIMARY_DET_TIME])
         (cp_det (chg_det (phy_cfg rphy)))"
  then have "\<forall>j<5. \<not> dcd_seen (get_reg_base rphy) rphy0 j" by simp
  from floating_six [OF assms this] a
  show "rockchip_chg_get_type False gpio (Inr rphy) =
        Inr (POWER_SUPPLY_TYPE_USB_FLOATING,
          rphy0\<lparr>dcd_retries := 0, primary_retries := 2,
            trace := trace rphy0 @ tr_dcd (phy_cfg rphy) 6
               @ ev_first (phy_cfg rphy) @ ev_cleanup (phy_cfg rphy)\<rparr>)"
    by blast
qed

theorem floating_on_dcd_timeout_witness:
  "dcd_retries (chg_dcd_stage bank_no_contact
      ((mk_phy bank_no_contact rk3328_phy_cfg)\<lparr>trace := [RegRead 0x0120]\<rparr>)) = 0 \<and>
   rockchip_chg_get_type False None (Inr (mk_phy bank_no_contact rk3328_phy_cfg)) =
     Inr (POWER_SUPPLY_TYPE_USB_FLOATING,
          (mk_phy bank_no_contact rk3328_phy_cfg)
            \<lparr>dcd_retries := 0, primary_retries := 2,
             trace := RegRead 0x0120 # tr_dcd rk3328_phy_cfg 6
               @ ev_first rk3328_phy_cfg @ ev_cleanup rk3328_phy_cfg\<rparr>)"
proof -
  let ?b = "bank_no_contact"
  let ?r = "mk_phy ?b rk3328_phy_cfg"
  let ?s = "?r\<lparr>trace := [RegRead 0x0120]\<rparr>"
  have gb: "get_reg_base ?r = ?b" "phy_cfg ?r = rk3328_phy_cfg"
    by (simp_all add: mk_phy_def get_reg_base_def)
  have "reads_enabled ?b [] (mk_reg 0x0120 9 9 0 1)" by code_simp
  then have v: "chg_vbus_check None (get_reg_base ?r) ?r = (True, ?s)"
    by (rule vbus_rk3328)
  have dp: "\<forall>j<6. \<not> dcd_seen ?b ?s j"
    unfolding all_less_6 by (intro conjI; code_simp)
  have cp: "\<not> reads_enabled ?b
      (trace ?s @ tr_dcd rk3328_phy_cfg 6 @ [Mdelay CHG_PRIMARY_DET_TIME])
      (cp_det (chg_det rk3328_phy_cfg))" by code_simp
  have z: "dcd_retries (chg_dcd_stage ?b ?s) = 0" by code_simp
  have res: "rockchip_chg_get_type False None (Inr ?r) =
     Inr (POWER_SUPPLY_TYPE_USB_FLOATING,
          ?r\<lparr>dcd_retries := 0, primary_retries := 2,
             trace := RegRead 0x0120 # tr_dcd rk3328_phy_cfg 6
               @ ev_first rk3328_phy_cfg @ ev_cleanup rk3328_phy_cfg\<rparr>)"
    using floating_on_dcd_timeout [OF v, THEN conjunct2] dp cp by (simp add: gb)
  from z res show ?thesis by (rule conjI)
qed

text \<open>
  Claim C10. When \<^verbatim>\<open>dp_det\<close> reads asserted for the first time at the sixth poll, the
  poll that takes the last retry, and \<^verbatim>\<open>cp_det\<close> then reads not asserted, the call
  returns \<^verbatim>\<open>POWER_SUPPLY_TYPE_USB_FLOATING\<close>: \<^verbatim>\<open>primary_retries\<close> is still 2 and the
  history has no retry of the primary detection, although data contact was seen.
\<close>

theorem floating_on_late_contact:
  assumes "chg_vbus_check gpio (get_reg_base rphy) rphy = (True, rphy0)"
    and "\<forall>j<5. \<not> dcd_seen (get_reg_base rphy) rphy0 j"
    and "dcd_seen (get_reg_base rphy) rphy0 5"
    and "\<not> reads_enabled (get_reg_base rphy)
         (trace rphy0 @ tr_dcd (phy_cfg rphy) 6 @ [Mdelay CHG_PRIMARY_DET_TIME])
         (cp_det (chg_det (phy_cfg rphy)))"
  shows "rockchip_chg_get_type False gpio (Inr rphy) =
     Inr (POWER_SUPPLY_TYPE_USB_FLOATING,
          rphy0\<lparr>dcd_retries := 0, primary_retries := 2,
            trace := trace rphy0 @ tr_dcd (phy_cfg rphy) 6
               @ ev_first (phy_cfg rphy) @ ev_cleanup (phy_cfg rphy)\<rparr>)"
  using floating_six [OF assms(1,2,4)] .

theorem floating_on_late_contact_witness:
  "rockchip_chg_get_type False None (Inr (mk_phy (bank_contact_from 600) rk3328_phy_cfg)) =
     Inr (POWER_SUPPLY_TYPE_USB_FLOATING,
          (mk_phy (bank_contact_from 600) rk3328_phy_cfg)
            \<lparr>dcd_retries := 0, primary_retries := 2,
             trace := RegRead 0x0120 # tr_dcd rk3328_phy_cfg 6
               @ ev_first rk3328_phy_cfg @ ev_cleanup rk3328_phy_cfg\<rparr>)"
proof -
  let ?b = "bank_contact_from 600"
  let ?r = "mk_phy ?b rk3328_phy_cfg"
  let ?s = "?r\<lparr>trace := [RegRead 0x0120]\<rparr>"
  have gb: "get_reg_base ?r = ?b" "phy_cfg ?r = rk3328_phy_cfg"
    by (simp_all add: mk_phy_def get_reg_base_def)
  have "reads_enabled ?b [] (mk_reg 0x0120 9 9 0 1)" by code_simp
  then have v: "chg_vbus_check None (get_reg_base ?r) ?r = (True, ?s)"
    by (rule vbus_rk3328)
  have dp: "\<forall>j<5. \<not> dcd_seen (get_reg_base ?r) ?s j"
    unfolding gb all_less_5 by (intro conjI; code_simp)
  have dp5: "dcd_seen (get_reg_base ?r) ?s 5"
    unfolding gb by code_simp
  have cp: "\<not> reads_enabled (get_reg_base ?r)
      (trace ?s @ tr_dcd (phy_cfg ?r) 6 @ [Mdelay CHG_PRIMARY_DET_TIME])
      (cp_det (chg_det (phy_cfg ?r)))"
    unfolding gb by code_simp
  from floating_on_late_contact [OF v dp dp5 cp] show ?thesis
    by (simp add: gb)
qed

lemma total_delay_events [simp]:
  "total_delay (ev_suspend cfg) = 0"
  "total_delay (ev_cleanup cfg) = 0"
  "total_delay (ev_dcd cfg en) = 0"
  "total_delay (ev_primary cfg en) = 0"
  "total_delay (ev_secondary cfg en) = 0"
  "total_delay (ev_first cfg) = 40"
  "total_delay (ev_attempt cfg) = 40"
  "total_delay (rd reg # tr) = total_delay tr"
  "total_delay (wr reg en # tr) = total_delay tr"
  by (simp_all add: ev_suspend_def ev_cleanup_def ev_dcd_def ev_primary_def ev_secondary_def
      ev_first_def ev_attempt_def wr_def rd_def CHG_PRIMARY_DET_TIME_def)

lemma total_delay_dcd_polls: "total_delay (dcd_polls cfg k) = 100 * k"
  by (induction k) (simp_all add: dcd_polls_simps rd_def CHG_DCD_POLL_TIME_def)

lemma total_delay_tr_dcd [simp]: "total_delay (tr_dcd cfg k) = 100 * k"
  by (simp add: tr_dcd_def total_delay_dcd_polls)

subsection \<open>The retries of the primary detection\<close>

text \<open>
  Claim C4 says that each retry of the primary detection ends by disabling the primary
  detect bundle. On the RK3328 layout with data contact at the third poll and no charging
  port, the call returns \<^verbatim>\<open>POWER_SUPPLY_TYPE_USB\<close> after three reads of \<^verbatim>\<open>cp_det\<close>, but
  its history is not the one the claim describes: between the two retries nothing is
  disabled, and the bundle is disabled once, after the second retry
  (\<^verbatim>\<open>rockchip_chg_primary_det_retry\<close> disables it after its loop).
\<close>

theorem primary_retry_counterexample:
  "chg_type_of (rockchip_chg_get_type False None
       (Inr (mk_phy (bank_contact_from 300) rk3328_phy_cfg))) = Some POWER_SUPPLY_TYPE_USB \<and>
   final_trace (rockchip_chg_get_type False None
       (Inr (mk_phy (bank_contact_from 300) rk3328_phy_cfg))) =
     [RegRead 0x0120,
      RegWrite 0x0100 0x01ff01d1, RegWrite 0x0100 0x000f0005,
      RegWrite 0x0108 0x04000400, RegWrite 0x0108 0x02000200,
      Mdelay 100, RegRead 0x0120, Mdelay 100, RegRead 0x0120, Mdelay 100, RegRead 0x0120,
      RegWrite 0x0108 0x04000000, RegWrite 0x0108 0x02000000,
      RegWrite 0x0108 0x08000800, RegWrite 0x0108 0x01000100,
      Mdelay 40, RegRead 0x0120,
      RegWrite 0x0108 0x08000000, RegWrite 0x0108 0x01000000,
      RegWrite 0x0108 0x08000800, RegWrite 0x0108 0x01000100,
      Mdelay 40, RegRead 0x0120,
      RegWrite 0x0108 0x08000800, RegWrite 0x0108 0x01000100,
      Mdelay 40, RegRead 0x0120,
      RegWrite 0x0108 0x08000000, RegWrite 0x0108 0x01000000,
      RegWrite 0x0100 0x000f0001, RegWrite 0x0100 0x01ff0000] \<and>
   final_trace (rockchip_chg_get_type False None
       (Inr (mk_phy (bank_contact_from 300) rk3328_phy_cfg))) \<noteq>
     RegRead 0x0120 # tr_dcd rk3328_phy_cfg 3 @ ev_first rk3328_phy_cfg
       @ (ev_attempt rk3328_phy_cfg @ ev_primary rk3328_phy_cfg False)
       @ (ev_attempt rk3328_phy_cfg @ ev_primary rk3328_phy_cfg False)
       @ ev_cleanup rk3328_phy_cfg"
  by (intro conjI; code_simp)

text \<open>
  Claim C4, amended. Let VBUS be there and the model not be the RK3036. When the data
  contact detection stage ends with retries left and the first read of \<^verbatim>\<open>cp_det\<close> is not
  asserted, the primary detection is tried up to two more times. Each retry (\<open>ev_attempt\<close>)
  enables the primary detect bundle, waits 40 ms and reads \<^verbatim>\<open>cp_det\<close>; the retries stop at
  the first asserted read, and the bundle is disabled once, after the last retry made. A
  retry that succeeds leads to the secondary detection. If both fail, the call returns
  \<^verbatim>\<open>POWER_SUPPLY_TYPE_USB\<close> after three reads of \<^verbatim>\<open>cp_det\<close> in all (one in \<open>ev_first\<close>,
  two in the retries), with \<^verbatim>\<open>primary_retries\<close> wrapped to 255, and goes to the cleanup.
\<close>

theorem primary_detect_retries:
  assumes "chg_vbus_check gpio (get_reg_base rphy) rphy = (True, rphy0)"
  shows "let base = get_reg_base rphy; cfg = phy_cfg rphy;
             s = chg_dcd_stage base rphy0; T1 = trace s @ ev_first cfg
         in dcd_retries s \<noteq> 0 \<and>
            \<not> reads_enabled base (trace s @ [Mdelay CHG_PRIMARY_DET_TIME]) (cp_det (chg_det cfg)) \<longrightarrow>
            rockchip_chg_get_type False gpio (Inr rphy) = Inr
              (if reads_enabled base (T1 @ ev_primary cfg True @ [Mdelay CHG_PRIMARY_DET_TIME])
                    (cp_det (chg_det cfg))
               then chg_secondary_det base
                      (s\<lparr>primary_retries := 1,
                         trace := T1 @ ev_attempt cfg @ ev_primary cfg False
                            @ ev_secondary cfg True\<rparr>)
               else if reads_enabled base
                    (T1 @ ev_attempt cfg @ ev_primary cfg True @ [Mdelay CHG_PRIMARY_DET_TIME])
                    (cp_det (chg_det cfg))
               then chg_secondary_det base
                      (s\<lparr>primary_retries := 0,
                         trace := T1 @ ev_attempt cfg @ ev_attempt cfg @ ev_primary cfg False
                            @ ev_secondary cfg True\<rparr>)
               else (POWER_SUPPLY_TYPE_USB,
                     s\<lparr>primary_retries := 255,
                       trace := T1 @ ev_attempt cfg @ ev_attempt cfg @ ev_primary cfg False
                          @ ev_cleanup cfg\<rparr>))"
  by (simp add: Let_def get_type_detect [OF assms])

theorem primary_detect_retries_witness:
  "rockchip_chg_get_type False None (Inr (mk_phy (bank_contact_from 300) rk3328_phy_cfg)) =
     Inr (POWER_SUPPLY_TYPE_USB,
          (mk_phy (bank_contact_from 300) rk3328_phy_cfg)
            \<lparr>dcd_retries := 3, primary_retries := 255,
             trace := RegRead 0x0120 # tr_dcd rk3328_phy_cfg 3 @ ev_first rk3328_phy_cfg
               @ ev_attempt rk3328_phy_cfg @ ev_attempt rk3328_phy_cfg
               @ ev_primary rk3328_phy_cfg False @ ev_cleanup rk3328_phy_cfg\<rparr>)"
proof -
  let ?b = "bank_contact_from 300"
  let ?c = "rk3328_phy_cfg"
  let ?r = "mk_phy ?b ?c"
  let ?s = "?r\<lparr>trace := [RegRead 0x0120]\<rparr>"
  have gb: "get_reg_base ?r = ?b" "phy_cfg ?r = ?c"
    by (simp_all add: mk_phy_def get_reg_base_def)
  have "reads_enabled ?b [] (mk_reg 0x0120 9 9 0 1)" by code_simp
  then have v: "chg_vbus_check None (get_reg_base ?r) ?r = (True, ?s)"
    by (rule vbus_rk3328)
  have s0: "\<not> dcd_seen ?b ?s 0" by code_simp
  have s1: "\<not> dcd_seen ?b ?s 1" by code_simp
  have s2: "dcd_seen ?b ?s 2" by code_simp
  have "\<forall>j<3 - 1. \<not> dcd_seen ?b ?s j"
    using s0 s1 by (auto simp: less_Suc_eq numeral_2_eq_2)
  with s2 have "chg_dcd_stage ?b ?s =
      ?s\<lparr>dcd_retries := 6 - of_nat 3, primary_retries := 2,
          trace := trace ?s @ tr_dcd (phy_cfg ?s) 3\<rparr>"
    by (intro chg_dcd_stage_k) simp_all
  then have st: "chg_dcd_stage ?b ?s =
      ?r\<lparr>dcd_retries := 3, primary_retries := 2, trace := RegRead 0x0120 # tr_dcd ?c 3\<rparr>"
    by (simp add: mk_phy_def)
  have c0: "\<not> reads_enabled ?b
      (RegRead 0x0120 # tr_dcd ?c 3 @ [Mdelay CHG_PRIMARY_DET_TIME]) (cp_det (chg_det ?c))"
    by code_simp
  have c1: "\<not> reads_enabled ?b
      (RegRead 0x0120 # tr_dcd ?c 3 @ ev_first ?c @ ev_primary ?c True
         @ [Mdelay CHG_PRIMARY_DET_TIME]) (cp_det (chg_det ?c))"
    by code_simp
  have c2: "\<not> reads_enabled ?b
      (RegRead 0x0120 # tr_dcd ?c 3 @ ev_first ?c @ ev_attempt ?c @ ev_primary ?c True
         @ [Mdelay CHG_PRIMARY_DET_TIME]) (cp_det (chg_det ?c))"
    by code_simp
  show ?thesis
    using primary_detect_retries [OF v] c0 c1 c2
    by (simp add: Let_def gb st)
qed

subsection \<open>The time spent when data contact detection times out\<close>

text \<open>
  Claim C8 says that a call in which no poll sees data contact spends 640 ms in delays
  whatever the classification. On the RK3328 layout with no data contact and a charging
  port, \<^verbatim>\<open>cp_det\<close> is asserted, the secondary detection waits 40 ms more, and the call
  spends 680 ms.
\<close>

theorem dcd_timeout_delay_counterexample:
  "(\<not> dcd_seen bank_charger ((mk_phy bank_charger rk3328_phy_cfg)\<lparr>trace := [RegRead 0x0120]\<rparr>) 0 \<and>
    \<not> dcd_seen bank_charger ((mk_phy bank_charger rk3328_phy_cfg)\<lparr>trace := [RegRead 0x0120]\<rparr>) 1 \<and>
    \<not> dcd_seen bank_charger ((mk_phy bank_charger rk3328_phy_cfg)\<lparr>trace := [RegRead 0x0120]\<rparr>) 2 \<and>
    \<not> dcd_seen bank_charger ((mk_phy bank_charger rk3328_phy_cfg)\<lparr>trace := [RegRead 0x0120]\<rparr>) 3 \<and>
    \<not> dcd_seen bank_charger ((mk_phy bank_charger rk3328_phy_cfg)\<lparr>trace := [RegRead 0x0120]\<rparr>) 4 \<and>
    \<not> dcd_seen bank_charger ((mk_phy bank_charger rk3328_phy_cfg)\<lparr>trace := [RegRead 0x0120]\<rparr>) 5) \<and>
   chg_type_of (rockchip_chg_get_type False None (Inr (mk_phy bank_charger rk3328_phy_cfg))) =
     Some POWER_SUPPLY_TYPE_USB_CDP \<and>
   total_delay (final_trace (rockchip_chg_get_type False None
       (Inr (mk_phy bank_charger rk3328_phy_cfg)))) = 680 \<and>
   total_delay (final_trace (rockchip_chg_get_type False None
       (Inr (mk_phy bank_charger rk3328_phy_cfg)))) \<noteq> 640"
  by (intro conjI; code_simp)

text \<open>
  Claim C8, amended. Let VBUS be there and the model not be the RK3036. A call in which
  none of the six polls sees data contact spends 640 ms in delays when the read of
  \<^verbatim>\<open>cp_det\<close> is not asserted (the floating charger), and 680 ms when it is asserted (the
  secondary detection follows).
\<close>

theorem dcd_timeout_delay:
  assumes "chg_vbus_check gpio (get_reg_base rphy) rphy = (True, rphy0)"
    and "\<forall>j<6. \<not> dcd_seen (get_reg_base rphy) rphy0 j"
  shows "total_delay (final_trace (rockchip_chg_get_type False gpio (Inr rphy))) =
     total_delay (trace rphy) +
     (if reads_enabled (get_reg_base rphy)
           (trace rphy0 @ tr_dcd (phy_cfg rphy) 6 @ [Mdelay CHG_PRIMARY_DET_TIME])
           (cp_det (chg_det (phy_cfg rphy)))
      then 680 else 640)"
proof -
  have "\<forall>j<5. \<not> dcd_seen (get_reg_base rphy) rphy0 j"
    using assms(2) by simp
  then have st: "chg_dcd_stage (get_reg_base rphy) rphy0 =
     rphy0\<lparr>dcd_retries := 0, primary_retries := 2,
          trace := trace rphy0 @ tr_dcd (phy_cfg rphy) 6\<rparr>"
    using chg_dcd_stage_six [of "get_reg_base rphy" rphy0] chg_vbus_check_inv(1) [OF assms(1)]
    by simp
  show ?thesis
    by (simp add: get_type_detect [OF assms(1)] st final_trace_def chg_secondary_det_eq
        chg_vbus_check_inv(5) [OF assms(1)] CHG_SECONDARY_DET_TIME_def)
qed

theorem dcd_timeout_delay_witness:
  "total_delay (final_trace (rockchip_chg_get_type False None
       (Inr (mk_phy bank_no_contact rk3328_phy_cfg)))) = 640"
proof -
  let ?b = "bank_no_contact"
  let ?c = "rk3328_phy_cfg"
  let ?r = "mk_phy ?b ?c"
  let ?s = "?r\<lparr>trace := [RegRead 0x0120]\<rparr>"
  have gb: "get_reg_base ?r = ?b" "phy_cfg ?r = ?c" "trace ?r = []"
    by (simp_all add: mk_phy_def get_reg_base_def)
  have "reads_enabled ?b [] (mk_reg 0x0120 9 9 0 1)" by code_simp
  then have v: "chg_vbus_check None (get_reg_base ?r) ?r = (True, ?s)"
    by (rule vbus_rk3328)
  have dp: "\<forall>j<6. \<not> dcd_seen (get_reg_base ?r) ?s j"
    unfolding gb all_less_6 by (intro conjI; code_simp)
  have cp: "\<not> reads_enabled ?b
      (RegRead 0x0120 # tr_dcd ?c 6 @ [Mdelay CHG_PRIMARY_DET_TIME]) (cp_det (chg_det ?c))"
    by code_simp
  show ?thesis
    using dcd_timeout_delay [OF v dp] cp by (simp add: gb)
qed

subsection \<open>The RK3036 shortcut\<close>

text \<open>
  Claim C9 says that with \<^verbatim>\<open>CONFIG_ROCKCHIP_RK3036\<close> the cleanup writes are not made.
  The shortcut is a \<^verbatim>\<open>goto out\<close>, and the two writes after the label are made: on the
  RK3036 configuration with VBUS valid the history of the call has them after the read of
  \<^verbatim>\<open>utmi_bvalid\<close>.
\<close>

theorem rk3036_shortcut_counterexample:
  "chg_type_of (rockchip_chg_get_type True None (Inr (mk_phy bank_rk3036_vbus rk3036_phy_cfg))) =
     Some POWER_SUPPLY_TYPE_USB \<and>
   final_trace (rockchip_chg_get_type True None (Inr (mk_phy bank_rk3036_vbus rk3036_phy_cfg))) =
     [RegRead 0x014c, RegWrite 0 0x00010000, RegWrite 0x017c 0x01ff0000] \<and>
   filter is_write
     (final_trace (rockchip_chg_get_type True None (Inr (mk_phy bank_rk3036_vbus rk3036_phy_cfg))))
     \<noteq> []"
  by (intro conjI; code_simp)

text \<open>
  Claim C9, amended. With \<^verbatim>\<open>CONFIG_ROCKCHIP_RK3036\<close>, once VBUS is there the call returns
  \<^verbatim>\<open>POWER_SUPPLY_TYPE_USB\<close> without the writes that suspend the PHY and disable
  \<^verbatim>\<open>opmode\<close>, without any detection stage or delay and with the retry counters as they
  were; the two cleanup writes (enable \<^verbatim>\<open>opmode\<close>, clear \<^verbatim>\<open>phy_sus\<close>) are made.
\<close>

theorem rk3036_shortcut:
  assumes "chg_vbus_check gpio (get_reg_base rphy) rphy = (True, rphy0)"
  shows "rockchip_chg_get_type True gpio (Inr rphy) =
     Inr (POWER_SUPPLY_TYPE_USB, rphy0\<lparr>trace := trace rphy0 @ ev_cleanup (phy_cfg rphy)\<rparr>)"
  using chg_vbus_check_inv(1) [OF assms]
  by (simp add: get_type_eq [OF assms] chg_detect_def chg_out_eq)

theorem rk3036_shortcut_witness:
  "rockchip_chg_get_type True None (Inr (mk_phy bank_rk3036_vbus rk3036_phy_cfg)) =
     Inr (POWER_SUPPLY_TYPE_USB,
          (mk_phy bank_rk3036_vbus rk3036_phy_cfg)
            \<lparr>trace := RegRead 0x014c # ev_cleanup rk3036_phy_cfg\<rparr>)"
proof -
  let ?r = "mk_phy bank_rk3036_vbus rk3036_phy_cfg"
  have "reads_enabled bank_rk3036_vbus [] (mk_reg 0x014c 5 5 0 1)" by code_simp
  then have v: "chg_vbus_check None (get_reg_base ?r) ?r = (True, ?r\<lparr>trace := [RegRead 0x014c]\<rparr>)"
    by (simp add: chg_vbus_check_eq rd_def mk_phy_def rk3036_phy_cfg_def get_reg_base_def mk_reg_def)
  show ?thesis
    using rk3036_shortcut [OF v] by (simp add: mk_phy_def)
qed


subsection \<open>Writing a field and reading it back\<close>

lemma grf_regs_append: "grf_regs init (xs @ ys) = grf_regs (grf_regs init xs) ys"
proof (induction xs arbitrary: init)
  case Nil
  show ?case by simp
next
  case (Cons e xs)
  then show ?case by (cases e) (simp_all add: fun_upd_def)
qed

lemma field_after_store:
  assumes "writable_field reg" "fits reg (if en then enable reg else disable reg)"
  shows "field_enabled reg (grf_store old (property_val reg en)) \<longleftrightarrow>
     (if en then enable reg else disable reg) = enable reg"
proof -
  let ?s = "unat (bitstart reg)" and ?e = "unat (bitend reg)"
  let ?v = "if en then enable reg else disable reg"
  have r: "?s \<le> ?e" "?e < 16" "?e \<le> 31"
    using assms(1) by (simp_all add: writable_field_def U2PHY_BIT_WRITEABLE_SHIFT_def)
  have f: "take_bit (?e + 1 - ?s) ?v = ?v"
    using assms(2) by (simp add: fits_def field_width_def)
  have "take_bit (?e + 1 - ?s)
      (drop_bit ?s (grf_store old (push_bit ?s ?v OR push_bit 16 (GENMASK ?e ?s)))) = ?v"
    by (rule store_field [OF r(1,2) f])
  then have "take_bit (?e + 1 - ?s) (drop_bit ?s (grf_store old (property_val reg en))) = ?v"
    by (simp add: property_val_def Let_def U2PHY_BIT_WRITEABLE_SHIFT_def)
  then show ?thesis
    by (simp add: field_enabled_extract [OF r(1,3)])
qed

lemma read_after_write:
  assumes "writable_field reg" "fits reg (if en then enable reg else disable reg)"
  shows "fst (property_enabled (grf_regs init) reg (property_enable (grf_regs init) reg en rphy))
     \<longleftrightarrow> (if en then enable reg else disable reg) = enable reg"
  using field_after_store [OF assms]
  by (simp add: property_enabled_eq property_enable_eq reads_enabled_def grf_regs_append wr_def)

text \<open>
  Claim C5 states the round trip for every field whose two encodings differ. It fails for
  a field above bit 15, such as \<^verbatim>\<open>cp_det\<close> of the RK3328 (bit 24): the write-enable mask
  is shifted out of the word, the data bit lands in the mask half, and the field reads
  what it read before. It fails as well for a field whose enable encoding is wider than
  its bit range (encoding 2 in a range of one bit).
\<close>

theorem round_trip_counterexample:
  "enable (mk_reg 0x0120 24 24 0 1) \<noteq> disable (mk_reg 0x0120 24 24 0 1) \<and>
   \<not> fst (property_enabled (grf_regs (\<lambda>off. 0)) (mk_reg 0x0120 24 24 0 1)
       (property_enable (grf_regs (\<lambda>off. 0)) (mk_reg 0x0120 24 24 0 1) True
          (mk_phy (grf_regs (\<lambda>off. 0)) rk3328_phy_cfg))) \<and>
   enable (mk_reg 0 0 0 0 2) \<noteq> disable (mk_reg 0 0 0 0 2) \<and>
   \<not> fst (property_enabled (grf_regs (\<lambda>off. 0)) (mk_reg 0 0 0 0 2)
       (property_enable (grf_regs (\<lambda>off. 0)) (mk_reg 0 0 0 0 2) True
          (mk_phy (grf_regs (\<lambda>off. 0)) rk3328_phy_cfg)))"
  by (intro conjI; code_simp)

text \<open>
  Claim C5, amended. For every field whose bit range lies in the lower half-word, whose
  two encodings fit in the range and differ, on a bank that honours the write-enable
  convention: after \<^verbatim>\<open>property_enable\<close> with \<^verbatim>\<open>true\<close>, \<^verbatim>\<open>property_enabled\<close> returns
  true, and after \<^verbatim>\<open>property_enable\<close> with \<^verbatim>\<open>false\<close> it returns false, whatever the
  registers held and whatever was done before.
\<close>

theorem property_round_trip:
  assumes "writable_field reg" "fits reg (enable reg)" "fits reg (disable reg)"
    "enable reg \<noteq> disable reg"
  shows "fst (property_enabled (grf_regs init) reg
            (property_enable (grf_regs init) reg True rphy)) \<and>
         \<not> fst (property_enabled (grf_regs init) reg
            (property_enable (grf_regs init) reg False rphy))"
  using assms read_after_write [of reg True init rphy] read_after_write [of reg False init rphy]
  by auto

text \<open>The \<^verbatim>\<open>opmode\<close> field of the RK3328: four bits, disable encoding 5, enable encoding 1.\<close>

theorem property_round_trip_witness:
  "fst (property_enabled (grf_regs (\<lambda>off. 0)) (mk_reg 0x0100 3 0 5 1)
     (property_enable (grf_regs (\<lambda>off. 0)) (mk_reg 0x0100 3 0 5 1) True
        (mk_phy (grf_regs (\<lambda>off. 0)) rk3328_phy_cfg))) \<and>
   \<not> fst (property_enabled (grf_regs (\<lambda>off. 0)) (mk_reg 0x0100 3 0 5 1)
     (property_enable (grf_regs (\<lambda>off. 0)) (mk_reg 0x0100 3 0 5 1) False
        (mk_phy (grf_regs (\<lambda>off. 0)) rk3328_phy_cfg)))"
proof -
  let ?f = "mk_reg 0x0100 3 0 5 1"
  have h: "writable_field ?f" "fits ?f (enable ?f)" "fits ?f (disable ?f)" "enable ?f \<noteq> disable ?f"
    by code_simp+
  show ?thesis
    by (rule property_round_trip [OF h])
qed

text \<open>
  Claim C6 says that a field whose two encodings are equal reads true after any write.
  It reads false when the encoding does not fit in the bit range, or when the range lies
  above bit 15.
\<close>

theorem exact_match_counterexample:
  "enable (mk_reg 0 0 0 2 2) = disable (mk_reg 0 0 0 2 2) \<and>
   \<not> fst (property_enabled (grf_regs (\<lambda>off. 0)) (mk_reg 0 0 0 2 2)
       (property_enable (grf_regs (\<lambda>off. 0)) (mk_reg 0 0 0 2 2) True
          (mk_phy (grf_regs (\<lambda>off. 0)) rk3328_phy_cfg))) \<and>
   enable (mk_reg 0x0120 24 24 1 1) = disable (mk_reg 0x0120 24 24 1 1) \<and>
   \<not> fst (property_enabled (grf_regs (\<lambda>off. 0)) (mk_reg 0x0120 24 24 1 1)
       (property_enable (grf_regs (\<lambda>off. 0)) (mk_reg 0x0120 24 24 1 1) False
          (mk_phy (grf_regs (\<lambda>off. 0)) rk3328_phy_cfg)))"
  by (intro conjI; code_simp)

text \<open>
  Claim C6, amended. For a field with \<open>bitstart \<le> bitend \<le> 31\<close>, \<^verbatim>\<open>property_enabled\<close>
  returns true exactly when the value of the bit range of the register read equals the
  enable encoding (not when it is merely non-zero). So, on a bank that honours the
  write-enable convention, a field in the lower half-word whose two encodings are equal
  and fit in the range reads true after any \<^verbatim>\<open>property_enable\<close>, whatever the boolean
  written.
\<close>

theorem property_enabled_exact:
  "(unat (bitstart reg) \<le> unat (bitend reg) \<and> unat (bitend reg) \<le> 31 \<longrightarrow>
      (fst (property_enabled base reg rphy) \<longleftrightarrow>
         take_bit (field_width reg) (drop_bit (unat (bitstart reg)) (base (trace rphy) (offset reg)))
           = enable reg)) \<and>
   (writable_field reg \<and> fits reg (enable reg) \<and> enable reg = disable reg \<longrightarrow>
      fst (property_enabled (grf_regs init) reg (property_enable (grf_regs init) reg en rphy')))"
proof (intro conjI impI)
  assume "unat (bitstart reg) \<le> unat (bitend reg) \<and> unat (bitend reg) \<le> 31"
  then show "fst (property_enabled base reg rphy) \<longleftrightarrow>
         take_bit (field_width reg) (drop_bit (unat (bitstart reg)) (base (trace rphy) (offset reg)))
           = enable reg"
    by (simp add: property_enabled_eq reads_enabled_def field_enabled_extract field_width_def)
next
  assume a: "writable_field reg \<and> fits reg (enable reg) \<and> enable reg = disable reg"
  then have e: "disable reg = enable reg" by simp
  from a have "fits reg (if en then enable reg else disable reg)"
    unfolding e by simp
  with a show "fst (property_enabled (grf_regs init) reg (property_enable (grf_regs init) reg en rphy'))"
    using read_after_write [of reg en init rphy'] by simp
qed

text \<open>
  A register that holds 5 in the \<^verbatim>\<open>opmode\<close> range reads not enabled although the range
  is not zero; the host port \<^verbatim>\<open>phy_sus\<close> of the second RK3588 PHY, whose encodings are
  both 0, reads enabled after being disabled.
\<close>

theorem property_enabled_exact_witness:
  "\<not> fst (property_enabled (\<lambda>tr off. 5) (mk_reg 0x0100 3 0 5 1)
        (mk_phy (\<lambda>tr off. 5) rk3328_phy_cfg)) \<and>
   take_bit (field_width (mk_reg 0x0100 3 0 5 1))
     (drop_bit (unat (bitstart (mk_reg 0x0100 3 0 5 1))) (5 :: u32)) \<noteq> 0 \<and>
   fst (property_enabled (grf_regs (\<lambda>off. 0)) (mk_reg 0x000c 11 11 0 0)
     (property_enable (grf_regs (\<lambda>off. 0)) (mk_reg 0x000c 11 11 0 0) False
        (mk_phy (grf_regs (\<lambda>off. 0)) rk3588_phy_cfg)))"
proof -
  let ?f = "mk_reg 0x0100 3 0 5 1"
  let ?g = "mk_reg 0x000c 11 11 0 0"
  let ?r = "mk_phy (\<lambda>tr off. 5) rk3328_phy_cfg"
  have h1: "unat (bitstart ?f) \<le> unat (bitend ?f) \<and> unat (bitend ?f) \<le> 31"
    by code_simp
  have v: "take_bit (field_width ?f) (drop_bit (unat (bitstart ?f)) (5 :: u32)) = 5"
    by code_simp
  have ne: "(5 :: u32) \<noteq> enable ?f" "(5 :: u32) \<noteq> 0" by code_simp+
  have h2: "writable_field ?g \<and> fits ?g (enable ?g) \<and> enable ?g = disable ?g"
    by code_simp
  have tr: "trace ?r = []" by (simp add: mk_phy_def)
  have a: "\<not> fst (property_enabled (\<lambda>tr off. 5) ?f ?r)"
    using property_enabled_exact [of ?f "\<lambda>tr off. 5" ?r, THEN conjunct1] h1 v ne
    by simp
  have b: "fst (property_enabled (grf_regs (\<lambda>off. 0)) ?g
     (property_enable (grf_regs (\<lambda>off. 0)) ?g False (mk_phy (grf_regs (\<lambda>off. 0)) rk3588_phy_cfg)))"
    using property_enabled_exact [of ?g _ _ "\<lambda>off. 0" False, THEN conjunct2] h2
    by blast
  from a v ne b show ?thesis by simp
qed

subsection \<open>The cleanup\<close>












lemma clear_spares_disjoint:
  assumes "writable_field sus" "fits sus (disable sus)"
    "unat (bitend op) < unat (bitstart sus) \<or> unat (bitend sus) < unat (bitstart op)"
  shows "clear_spares sus op"
  using assms by (auto simp: clear_spares_def)




end
